theory Spec2Isabelle
  imports Main "HOL-Library.Word"
begin

unbundle bit_operations_syntax

section \<open>steam\_cef\_gpu\_fix.c: the fault-interception shim\<close>

text \<open>
  A shallow embedding of \<^verbatim>\<open>steam_cef_gpu_fix.c\<close> (x86-64 Linux). The shim has one
  static variable (\<^verbatim>\<open>handlers_locked\<close>), two signal handlers that rewrite the saved
  register context, and three interposed libc entry points (\<^verbatim>\<open>sigaction\<close>,
  \<^verbatim>\<open>signal\<close>, \<^verbatim>\<open>syscall\<close>).

  Conventions of the model:
  \<^item> \<^verbatim>\<open>uint64_t\<close>, \<^verbatim>\<open>long\<close> and pointers are 64-bit words, \<^verbatim>\<open>int\<close> is a 32-bit word,
    a byte is an 8-bit word; \<open><\<close> on words is the unsigned comparison of the source.
  \<^item> Memory is byte-addressed and partial: \<open>None\<close> is an unmapped byte. A read of the
    handler through \<^verbatim>\<open>rsp\<close>, \<^verbatim>\<open>rbp\<close> or \<^verbatim>\<open>rip\<close> that touches an unmapped byte is the
    outcome \<open>Fault\<close> (the handler itself faults).
  \<^item> The saved registers \<^verbatim>\<open>ctx->uc_mcontext.gregs\<close> lie in that memory, at the address
    \<open>uc\<close>: what the handler reads through a pointer is the memory with the saved
    registers, as the handler has written them so far, laid over it (\<open>seen\<close>). A read
    that follows a write to the context sees that write.
  \<^item> The functions found with \<^verbatim>\<open>dlsym(RTLD_NEXT, ...)\<close> are parameters of the model
    (\<open>real_sigaction_fn\<close>, \<open>real_syscall\<close>); they act on the environment \<open>env\<close>
    (errno and the kernel), never on \<^verbatim>\<open>handlers_locked\<close>. The cached pointer of the
    source always denotes that one function, so the cache itself is not a state component.
  \<^item> A call of \<^verbatim>\<open>sigaction\<close> written inside the shim is a call of the shim's own
    definition of \<^verbatim>\<open>sigaction\<close>, as in the C translation unit; calls through
    \<^verbatim>\<open>real_sigaction_fn\<close> go to the parameter.
\<close>

subsection \<open>Machine types and constants\<close>

type_synonym u8 = "8 word"
type_synonym u64 = "64 word"
type_synonym cint = "32 word"
type_synonym long = "64 word"

text \<open>Values of the system headers on x86-64 Linux.\<close>

definition SIGILL :: cint where "SIGILL = 4"
definition SIGTRAP :: cint where "SIGTRAP = 5"
definition SIGSEGV :: cint where "SIGSEGV = 11"
definition ENOSYS :: cint where "ENOSYS = 38"
definition SYS_clone3 :: long where "SYS_clone3 = 435"
definition SA_SIGINFO :: cint where "SA_SIGINFO = 4"
definition SA_NODEFER :: cint where "SA_NODEFER = 0x40000000"

text \<open>The indices of \<^verbatim>\<open>uc_mcontext.gregs\<close> (\<^verbatim>\<open>sys/ucontext.h\<close>).\<close>

datatype greg =
    REG_R8 | REG_R9 | REG_R10 | REG_R11 | REG_R12 | REG_R13 | REG_R14 | REG_R15
  | REG_RDI | REG_RSI | REG_RBP | REG_RBX | REG_RDX | REG_RAX | REG_RCX | REG_RSP
  | REG_RIP | REG_EFL | REG_CSGSFS | REG_ERR | REG_TRAPNO | REG_OLDMASK | REG_CR2

type_synonym gregs = "greg \<Rightarrow> u64"

subsection \<open>Memory\<close>

type_synonym memory = "u64 \<Rightarrow> u8 option"

definition read_u8 :: "memory \<Rightarrow> u64 \<Rightarrow> u8 option" where
  "read_u8 mem a = mem a"

text \<open>Little-endian value of a byte string.\<close>

fun le_word :: "u8 list \<Rightarrow> u64" where
  "le_word [] = 0"
| "le_word (b # bs) = ucast b OR push_bit 8 (le_word bs)"

text \<open>\<^verbatim>\<open>*(uint64_t *)a\<close>: the eight bytes from \<open>a\<close>, all of which must be mapped.\<close>

definition read_u64 :: "memory \<Rightarrow> u64 \<Rightarrow> u64 option" where
  "read_u64 mem a = map_option le_word (those (map (\<lambda>i. mem (a + of_nat i)) [0..<8]))"

text \<open>A memory holding the bytes \<open>bs\<close> from address \<open>base\<close> on and nothing else.\<close>

definition bytes_at :: "u64 \<Rightarrow> u8 list \<Rightarrow> memory" where
  "bytes_at base bs = (\<lambda>a. if unat (a - base) < length bs then Some (bs ! unat (a - base)) else None)"

subsection \<open>The saved registers in memory\<close>

text \<open>
  \<^verbatim>\<open>gregs\<close> is an array of 23 eight-byte slots, in the order of the enumeration; \<open>uc\<close>
  is the address of its first slot.
\<close>

definition gregs_order :: "greg list" where
  "gregs_order =
     [REG_R8, REG_R9, REG_R10, REG_R11, REG_R12, REG_R13, REG_R14, REG_R15,
      REG_RDI, REG_RSI, REG_RBP, REG_RBX, REG_RDX, REG_RAX, REG_RCX, REG_RSP,
      REG_RIP, REG_EFL, REG_CSGSFS, REG_ERR, REG_TRAPNO, REG_OLDMASK, REG_CR2]"

text \<open>The byte at address \<open>a\<close> belongs to the slot of register \<open>r\<close>.\<close>

definition in_slot :: "u64 \<Rightarrow> greg \<Rightarrow> u64 \<Rightarrow> bool" where
  "in_slot uc r a \<longleftrightarrow> unat (a - uc) < 184 \<and> gregs_order ! (unat (a - uc) div 8) = r"

text \<open>
  The memory the handler reads while the saved registers hold \<open>ctx\<close>: inside the array
  a byte of the register stored there (little-endian), outside it the byte of \<open>mem\<close>.
\<close>

definition seen :: "u64 \<Rightarrow> gregs \<Rightarrow> memory \<Rightarrow> memory" where
  "seen uc ctx mem =
     (\<lambda>a. if unat (a - uc) < 184
          then Some (ucast (drop_bit (8 * (unat (a - uc) mod 8))
                              (ctx (gregs_order ! (unat (a - uc) div 8)))))
          else mem a)"

text \<open>The eight-byte word at \<open>a\<close> shares no byte with the slot of register \<open>r\<close>.\<close>

definition apart :: "u64 \<Rightarrow> greg \<Rightarrow> u64 \<Rightarrow> bool" where
  "apart uc r a \<longleftrightarrow> list_all (\<lambda>i. \<not> in_slot uc r (a + of_nat i)) [0..<8]"

subsection \<open>Signal dispositions and the process state\<close>

text \<open>
  A handler value: the two special values, the shim's own two handlers, or a function
  of the host at some address.
\<close>

datatype handler = SIG_DFL | SIG_IGN | Sigsegv_handler | Crash_handler | Host_handler u64

text \<open>\<^verbatim>\<open>struct sigaction\<close>; \<^verbatim>\<open>sa_handler\<close> and \<^verbatim>\<open>sa_sigaction\<close> share one slot.\<close>

record sigaction_t =
  sa_handler :: handler
  sa_flags :: cint
  sa_mask :: u64

record 'k env =
  errno :: cint
  kernel :: 'k

text \<open>\<^verbatim>\<open>static int handlers_locked\<close> only ever holds 0 or 1 and is only tested for truth.\<close>

record 'k shim =
  handlers_locked :: bool
  env :: "'k env"

text \<open>
  The real \<^verbatim>\<open>sigaction\<close>: signal number, \<^verbatim>\<open>act\<close> (\<open>None\<close> is \<^verbatim>\<open>NULL\<close>), whether
  \<^verbatim>\<open>oldact\<close> is non-null; it returns its result, what it wrote to \<^verbatim>\<open>*oldact\<close>
  (\<open>None\<close>: nothing written) and the new environment.
\<close>

type_synonym 'k real_sigaction_t =
  "cint \<Rightarrow> sigaction_t option \<Rightarrow> bool \<Rightarrow> 'k env \<Rightarrow> cint \<times> sigaction_t option \<times> 'k env"

text \<open>The real \<^verbatim>\<open>syscall\<close>, called with the number and six arguments.\<close>

type_synonym 'k syscall_fn_t = "long \<Rightarrow> long list \<Rightarrow> 'k env \<Rightarrow> long \<times> 'k env"

definition initial_state :: "'k env \<Rightarrow> 'k shim" where
  "initial_state e = \<lparr>handlers_locked = False, env = e\<rparr>"

subsection \<open>The interposed sigaction and signal\<close>

definition managed :: "cint \<Rightarrow> bool" where
  "managed signum \<longleftrightarrow> signum = SIGSEGV \<or> signum = SIGTRAP \<or> signum = SIGILL"

definition sigaction ::
  "'k real_sigaction_t \<Rightarrow> 'k shim \<Rightarrow> cint \<Rightarrow> sigaction_t option \<Rightarrow> bool
     \<Rightarrow> cint \<times> sigaction_t option \<times> 'k shim" where
  "sigaction real_sigaction_fn st signum act oldact =
     (if handlers_locked st \<and> act \<noteq> None \<and> managed signum then
        (if oldact then
           (case real_sigaction_fn signum None True (env st) of
              (r, old, e) \<Rightarrow> (0, old, st\<lparr>env := e\<rparr>))
         else (0, None, st))
      else
        (case real_sigaction_fn signum act oldact (env st) of
           (r, old, e) \<Rightarrow> (r, old, st\<lparr>env := e\<rparr>)))"

text \<open>
  \<^verbatim>\<open>signal\<close> returns \<^verbatim>\<open>sa_old.sa_handler\<close>; when the real call wrote nothing to
  \<^verbatim>\<open>sa_old\<close> the value returned is that of an uninitialised local, here \<open>None\<close>.
\<close>

definition signal ::
  "'k real_sigaction_t \<Rightarrow> 'k shim \<Rightarrow> cint \<Rightarrow> handler \<Rightarrow> handler option \<times> 'k shim" where
  "signal real_sigaction_fn st signum h =
     (if handlers_locked st \<and> managed signum then (Some SIG_DFL, st)
      else
        (case real_sigaction_fn signum
                (Some \<lparr>sa_handler = h, sa_flags = 0, sa_mask = 0\<rparr>) True (env st) of
           (r, old, e) \<Rightarrow> (map_option sa_handler old, st\<lparr>env := e\<rparr>)))"

subsection \<open>The signal handlers\<close>

text \<open>
  What a handler invocation ends in: it returns and the kernel resumes the thread with
  the (rewritten) context; or it has called \<^verbatim>\<open>raise\<close> with the given signal, in the
  given state and with the given saved context; or it faulted itself, reading an
  unmapped address.
\<close>

datatype 'k outcome =
    Resume "'k shim" gregs
  | Reraise "'k shim" cint gregs
  | Fault u64

definition sig_dfl_action :: sigaction_t where
  "sig_dfl_action = \<lparr>sa_handler = SIG_DFL, sa_flags = 0, sa_mask = 0\<rparr>"

text \<open>
  The writes to \<^verbatim>\<open>ctx->uc_mcontext.gregs\<close> are kept in the order of the source, and
  every read through \<^verbatim>\<open>rsp\<close> or \<^verbatim>\<open>rbp\<close> is made in the memory as the writes before
  it have left it.
\<close>

definition sigsegv_handler ::
  "'k real_sigaction_t \<Rightarrow> 'k shim \<Rightarrow> u64 \<Rightarrow> memory \<Rightarrow> cint \<Rightarrow> u64 \<Rightarrow> gregs \<Rightarrow> 'k outcome" where
  "sigsegv_handler real_sigaction_fn st uc mem sig si_addr ctx =
     (let rip = ctx REG_RIP; rsp = ctx REG_RSP; rbp = ctx REG_RBP in
      if rip < 0x10000 then
        (case read_u64 (seen uc ctx mem) rsp of
           None \<Rightarrow> Fault rsp
         | Some ret_addr \<Rightarrow>
             Resume st (ctx(REG_RAX := 0, REG_RIP := ret_addr, REG_RSP := rsp + 8)))
      else if si_addr < 0x10000 then
        (let ctx1 = ctx(REG_RAX := 0) in
         if rbp > 0x10000 then
           (case read_u64 (seen uc ctx1 mem) rbp of
              None \<Rightarrow> Fault rbp
            | Some frame0 \<Rightarrow>
                (let ctx2 = ctx1(REG_RBP := frame0) in
                 case read_u64 (seen uc ctx2 mem) (rbp + 8) of
                   None \<Rightarrow> Fault (rbp + 8)
                 | Some frame1 \<Rightarrow>
                     Resume st (ctx2(REG_RIP := frame1, REG_RSP := rbp + 16))))
         else
           (case read_u64 (seen uc ctx1 mem) rsp of
              None \<Rightarrow> Fault rsp
            | Some w \<Rightarrow> Resume st (ctx1(REG_RIP := w, REG_RSP := rsp + 8))))
      else
        (case sigaction real_sigaction_fn st SIGSEGV (Some sig_dfl_action) False of
           (r, old, st') \<Rightarrow> Reraise (st'\<lparr>handlers_locked := False\<rparr>) SIGSEGV ctx))"

text \<open>
  \<^verbatim>\<open>(insn[0] == 0xcc) || (insn[0] == 0x0f && insn[1] == 0x0b)\<close>, with the short
  circuit: \<^verbatim>\<open>insn[1]\<close> is read only after \<^verbatim>\<open>insn[0] == 0x0f\<close>. \<open>Inl a\<close> is a fault
  reading address \<open>a\<close>.
\<close>

definition is_crash :: "memory \<Rightarrow> u64 \<Rightarrow> u64 + bool" where
  "is_crash mem rip =
     (case read_u8 mem rip of
        None \<Rightarrow> Inl rip
      | Some insn0 \<Rightarrow>
          if insn0 = 0xcc then Inr True
          else if insn0 = 0x0f then
            (case read_u8 mem (rip + 1) of
               None \<Rightarrow> Inl (rip + 1)
             | Some insn1 \<Rightarrow> Inr (insn1 = 0x0b))
          else Inr False)"

definition crash_handler ::
  "'k real_sigaction_t \<Rightarrow> 'k shim \<Rightarrow> u64 \<Rightarrow> memory \<Rightarrow> cint \<Rightarrow> gregs \<Rightarrow> 'k outcome" where
  "crash_handler real_sigaction_fn st uc mem sig ctx =
     (let rip = ctx REG_RIP; rbp = ctx REG_RBP in
      case is_crash (seen uc ctx mem) rip of
        Inl a \<Rightarrow> Fault a
      | Inr crash \<Rightarrow>
          if crash \<and> rbp > 0x10000 then
            (case read_u64 (seen uc ctx mem) rbp of
               None \<Rightarrow> Fault rbp
             | Some caller_rbp \<Rightarrow>
                 if caller_rbp > 0x10000 then
                   (let ctx1 = ctx(REG_RAX := 0) in
                    case read_u64 (seen uc ctx1 mem) caller_rbp of
                      None \<Rightarrow> Fault caller_rbp
                    | Some caller_frame0 \<Rightarrow>
                        (let ctx2 = ctx1(REG_RBP := caller_frame0) in
                         case read_u64 (seen uc ctx2 mem) (caller_rbp + 8) of
                           None \<Rightarrow> Fault (caller_rbp + 8)
                         | Some caller_frame1 \<Rightarrow>
                             Resume st (ctx2(REG_RIP := caller_frame1,
                                             REG_RSP := caller_rbp + 16))))
                 else
                   (let ctx2 = ctx(REG_RAX := 0, REG_RBP := caller_rbp) in
                    case read_u64 (seen uc ctx2 mem) (rbp + 8) of
                      None \<Rightarrow> Fault (rbp + 8)
                    | Some stub_frame1 \<Rightarrow>
                        Resume st (ctx2(REG_RIP := stub_frame1, REG_RSP := rbp + 16))))
          else
            (case sigaction real_sigaction_fn st sig (Some sig_dfl_action) False of
               (r, old, st') \<Rightarrow> Reraise (st'\<lparr>handlers_locked := False\<rparr>) sig ctx))"

subsection \<open>The interposed syscall\<close>

text \<open>
  The variadic arguments are the slots \<open>ap 0\<close>, \<open>ap 1\<close>, ... that \<^verbatim>\<open>va_arg\<close> reads in
  turn: the caller's arguments first, then whatever the following slots hold.
\<close>

definition syscall ::
  "'k syscall_fn_t \<Rightarrow> 'k shim \<Rightarrow> long \<Rightarrow> (nat \<Rightarrow> long) \<Rightarrow> long \<times> 'k shim" where
  "syscall real_syscall st number ap =
     (if number = SYS_clone3 then (- 1, st\<lparr>env := (env st)\<lparr>errno := ENOSYS\<rparr>\<rparr>)
      else
        (let a1 = ap 0; a2 = ap 1; a3 = ap 2; a4 = ap 3; a5 = ap 4; a6 = ap 5 in
         case real_syscall number [a1, a2, a3, a4, a5, a6] (env st) of
           (r, e) \<Rightarrow> (r, st\<lparr>env := e\<rparr>)))"

subsection \<open>The constructor\<close>

definition init :: "'k real_sigaction_t \<Rightarrow> 'k shim \<Rightarrow> 'k shim" where
  "init real_sigaction_fn st =
     (let sa = \<lparr>sa_handler = Sigsegv_handler, sa_flags = SA_SIGINFO OR SA_NODEFER, sa_mask = 0\<rparr>;
          e1 = snd (snd (real_sigaction_fn SIGSEGV (Some sa) False (env st)));
          sa' = sa\<lparr>sa_handler := Crash_handler\<rparr>;
          e2 = snd (snd (real_sigaction_fn SIGTRAP (Some sa') False e1));
          e3 = snd (snd (real_sigaction_fn SIGILL (Some sa') False e2))
      in st\<lparr>env := e3, handlers_locked := True\<rparr>)"

subsection \<open>The operations of a running process\<close>

text \<open>
  After the constructor, the shim's code runs only when the host calls one of the three
  interposed functions or the kernel delivers one of the managed signals.
\<close>

datatype event =
    Call_sigaction cint "sigaction_t option" bool
  | Call_signal cint handler
  | Call_syscall long "nat \<Rightarrow> long"
  | Deliver_sigsegv u64 memory cint u64 gregs
  | Deliver_crash u64 memory cint gregs

fun outcome_state :: "'k shim \<Rightarrow> 'k outcome \<Rightarrow> 'k shim" where
  "outcome_state st (Resume st' ctx) = st'"
| "outcome_state st (Reraise st' s ctx) = st'"
| "outcome_state st (Fault a) = st"

fun step :: "'k real_sigaction_t \<Rightarrow> 'k syscall_fn_t \<Rightarrow> 'k shim \<Rightarrow> event \<Rightarrow> 'k shim" where
  "step rs ry st (Call_sigaction signum act oldact) = snd (snd (sigaction rs st signum act oldact))"
| "step rs ry st (Call_signal signum h) = snd (signal rs st signum h)"
| "step rs ry st (Call_syscall number ap) = snd (syscall ry st number ap)"
| "step rs ry st (Deliver_sigsegv uc mem sig si_addr ctx) =
     outcome_state st (sigsegv_handler rs st uc mem sig si_addr ctx)"
| "step rs ry st (Deliver_crash uc mem sig ctx) =
     outcome_state st (crash_handler rs st uc mem sig ctx)"

definition run :: "'k real_sigaction_t \<Rightarrow> 'k syscall_fn_t \<Rightarrow> 'k shim \<Rightarrow> event list \<Rightarrow> 'k shim" where
  "run rs ry st evs = foldl (step rs ry) st evs"

text \<open>A call handed to the real \<^verbatim>\<open>sigaction\<close> as it is, and its result handed back.\<close>

definition forward_sigaction ::
  "'k real_sigaction_t \<Rightarrow> 'k shim \<Rightarrow> cint \<Rightarrow> sigaction_t option \<Rightarrow> bool
     \<Rightarrow> cint \<times> sigaction_t option \<times> 'k shim" where
  "forward_sigaction rs st signum act oldact =
     (case rs signum act oldact (env st) of (r, old, e) \<Rightarrow> (r, old, st\<lparr>env := e\<rparr>))"

text \<open>The same for the second interface: what \<^verbatim>\<open>signal\<close> does when it does not refuse.\<close>

definition forward_signal ::
  "'k real_sigaction_t \<Rightarrow> 'k shim \<Rightarrow> cint \<Rightarrow> handler \<Rightarrow> handler option \<times> 'k shim" where
  "forward_signal rs st signum h =
     (case rs signum (Some \<lparr>sa_handler = h, sa_flags = 0, sa_mask = 0\<rparr>) True (env st) of
        (r, old, e) \<Rightarrow> (map_option sa_handler old, st\<lparr>env := e\<rparr>))"

subsection \<open>A reference environment for concrete runs\<close>

text \<open>
  The real facilities are parameters of every theorem below. For concrete runs the
  kernel is a table of dispositions and the real \<^verbatim>\<open>sigaction\<close> behaves as
  sigaction(2) says: it rejects signal numbers outside 1..64 and changes to SIGKILL (9)
  and SIGSTOP (19) with EINVAL (22), and otherwise reports the old entry and stores the
  new one.
\<close>

type_synonym sigtable = "cint \<Rightarrow> sigaction_t"

definition kernel_sigaction :: "sigtable real_sigaction_t" where
  "kernel_sigaction signum act oldact e =
     (if signum = 0 then (- 1, None, e\<lparr>errno := 22\<rparr>)
      else if 64 < signum then (- 1, None, e\<lparr>errno := 22\<rparr>)
      else if act \<noteq> None \<and> (signum = 9 \<or> signum = 19) then (- 1, None, e\<lparr>errno := 22\<rparr>)
      else (0, (if oldact then Some (kernel e signum) else None),
            (case act of None \<Rightarrow> e | Some a \<Rightarrow> e\<lparr>kernel := (kernel e)(signum := a)\<rparr>)))"

text \<open>A real \<^verbatim>\<open>syscall\<close> for concrete runs: it returns the sum of its number and arguments.\<close>

definition sum_syscall :: "sigtable syscall_fn_t" where
  "sum_syscall number args e = (number + sum_list args, e)"

definition boot_env :: "sigtable env" where
  "boot_env = \<lparr>errno = 0, kernel = (\<lambda>signum. sig_dfl_action)\<rparr>"

text \<open>The process right after the constructor has run.\<close>

definition armed :: "sigtable shim" where
  "armed = init kernel_sigaction (initial_state boot_env)"

definition regs0 :: gregs where
  "regs0 = (\<lambda>r. 0)"

text \<open>
  The saved registers are at \<open>0x7ffcf000\<close>, below the stacks used here: the slot of
  RBP is at \<open>0x7ffcf050\<close>, of RDX at \<open>0x7ffcf060\<close>, of RAX at \<open>0x7ffcf068\<close>, of RCX at
  \<open>0x7ffcf070\<close>.
\<close>

definition uc0 :: u64 where
  "uc0 = 0x7ffcf000"

definition le_bytes :: "u64 \<Rightarrow> u8 list" where
  "le_bytes w = map (\<lambda>i. ucast (drop_bit (8 * i) w)) [0..<8]"

text \<open>A stack whose top word, at \<open>0x7ffd0000\<close>, is the return address \<open>0x401234\<close>.\<close>

definition stack_ret :: memory where
  "stack_ret = bytes_at 0x7ffd0000 (le_bytes 0x401234)"

text \<open>
  A stack whose top word, at \<open>0x7ffd0000\<close>, is the datum \<open>0xdeadbeef\<close>, as after a
  jump (not a call) through a null pointer; no byte is mapped at \<open>0xdeadbeef\<close>.
\<close>

definition stack_data :: memory where
  "stack_data = bytes_at 0x7ffd0000 (le_bytes 0xdeadbeef)"

text \<open>
  Two chained frames and a trap instruction: the frame at \<open>0x7ffd0000\<close> holds the saved
  frame pointer \<open>0x7ffd0010\<close> and the return address \<open>0x401111\<close>, the frame at
  \<open>0x7ffd0010\<close> holds \<open>0x7ffd0040\<close> and \<open>0x402222\<close>; the byte at \<open>0x400000\<close> is int3.
\<close>

definition chain :: memory where
  "chain = bytes_at 0x400000 [0xcc] ++
           bytes_at 0x7ffd0000
             (le_bytes 0x7ffd0010 @ le_bytes 0x401111 @ le_bytes 0x7ffd0040 @ le_bytes 0x402222)"

text \<open>
  One frame at \<open>0x7ffd0000\<close> whose saved frame pointer is \<open>0\<close> and whose return address
  is \<open>0x401111\<close>; the bytes at \<open>0x400000\<close> are ud2.
\<close>

definition single :: memory where
  "single = bytes_at 0x400000 [0x0f, 0x0b] ++
            bytes_at 0x7ffd0000 (le_bytes 0 @ le_bytes 0x401111)"

text \<open>The bytes at \<open>0x400000\<close> are \<^verbatim>\<open>nop; nop\<close>: no recognized trap encoding.\<close>

definition nops :: memory where
  "nops = bytes_at 0x400000 [0x90, 0x90]"

text \<open>Saved contexts: a call through a null pointer with the stack top at \<open>0x7ffd0000\<close>;\<close>

definition ctx_null_call :: gregs where
  "ctx_null_call = regs0(REG_RIP := 0, REG_RSP := 0x7ffd0000)"

text \<open>code at \<open>0x400000\<close> running in the frame at \<open>0x7ffd0000\<close>;\<close>

definition ctx_code :: gregs where
  "ctx_code = regs0(REG_RIP := 0x400000, REG_RSP := 0x7ffcfff0, REG_RBP := 0x7ffd0000)"

text \<open>code at \<open>0x400000\<close> with a null frame pointer and the stack top at \<open>0x7ffd0008\<close>.\<close>

definition ctx_nofp :: gregs where
  "ctx_nofp = regs0(REG_RIP := 0x400000, REG_RSP := 0x7ffd0008, REG_RBP := 0)"

text \<open>
  Saved contexts whose frame pointer leads into the saved registers themselves: the
  frame pointer is the address of the RAX slot, and RAX holds \<open>0x110d\<close>;
\<close>

definition ctx_rbp_at_rax :: gregs where
  "ctx_rbp_at_rax =
     regs0(REG_RIP := 0x400000, REG_RSP := 0x7ffd0000, REG_RBP := 0x7ffcf068, REG_RAX := 0x110d)"

text \<open>the frame pointer is the address of the RDX slot, RDX holds 0 and RAX \<open>0x110d\<close>.\<close>

definition ctx_rbp_at_rdx :: gregs where
  "ctx_rbp_at_rdx =
     regs0(REG_RIP := 0x400000, REG_RSP := 0x7ffd0000, REG_RBP := 0x7ffcf060, REG_RAX := 0x110d)"

text \<open>A context in the frame at \<open>0x7ffd0000\<close> with RAX \<open>0x110d\<close> and RCX \<open>0x402222\<close>,\<close>

definition ctx_code_rax :: gregs where
  "ctx_code_rax =
     regs0(REG_RIP := 0x400000, REG_RSP := 0x7ffcfff0, REG_RBP := 0x7ffd0000,
           REG_RAX := 0x110d, REG_RCX := 0x402222)"

text \<open>
  and a memory whose frame at \<open>0x7ffd0000\<close> links to the RAX slot as the caller's
  frame; the byte at \<open>0x400000\<close> is int3.
\<close>

definition chain_to_rax :: memory where
  "chain_to_rax = bytes_at 0x400000 [0xcc] ++
                  bytes_at 0x7ffd0000 (le_bytes 0x7ffcf068 @ le_bytes 0x401111)"

section \<open>Properties\<close>

subsection \<open>Evaluation of the reference environment\<close>

lemmas const_defs = SIGSEGV_def SIGTRAP_def SIGILL_def SA_SIGINFO_def SA_NODEFER_def
  ENOSYS_def SYS_clone3_def

lemmas fixture_defs = chain_def single_def nops_def stack_ret_def stack_data_def chain_to_rax_def
  read_u64_def read_u8_def bytes_at_def le_bytes_def upt_rec map_add_def regs0_def
  ctx_null_call_def ctx_code_def ctx_nofp_def ctx_rbp_at_rax_def ctx_rbp_at_rdx_def ctx_code_rax_def
  seen_def uc0_def gregs_order_def

lemma armed_locked: "handlers_locked armed"
  by (simp add: armed_def init_def Let_def)

lemma armed_kernel:
  "sa_handler (kernel (env armed) SIGSEGV) = Sigsegv_handler"
  "sa_handler (kernel (env armed) SIGTRAP) = Crash_handler"
  "sa_handler (kernel (env armed) SIGILL) = Crash_handler"
  by (simp_all add: armed_def init_def kernel_sigaction_def initial_state_def boot_env_def
      const_defs Let_def)

lemma apart_fixtures:
  "apart uc0 REG_RAX 0x7ffd0000" "apart uc0 REG_RAX 0x7ffd0008" "apart uc0 REG_RBP 0x7ffd0008"
  "apart uc0 REG_RAX 0x7ffd0010" "apart uc0 REG_RAX 0x7ffd0018" "apart uc0 REG_RBP 0x7ffd0018"
  by (simp_all add: apart_def in_slot_def uc0_def upt_rec)

subsection \<open>Memory reads\<close>

text \<open>
  \<open>read_u64\<close> is the little-endian read: it returns the word whose eight bytes are
  stored from the address on, and it returns a value only where all eight are mapped.
\<close>

lemma split_low_byte: "ucast (ucast x :: u8) OR push_bit 8 (drop_bit 8 x) = (x :: u64)"
proof (rule bit_word_eqI)
  fix n
  assume len: "n < LENGTH(64)"
  show "bit (ucast (ucast x :: u8) OR push_bit 8 (drop_bit 8 x) :: u64) n \<longleftrightarrow> bit x n"
  proof (cases "n < 8")
    case True
    with len show ?thesis by (auto simp add: bit_simps)
  next
    case False
    then have "8 + (n - 8) = n" by simp
    with False len show ?thesis by (auto simp add: bit_simps)
  qed
qed

lemma le_word_le_bytes: "le_word (le_bytes w) = w"
proof -
  have s: "ucast (ucast (drop_bit k w) :: u8) OR push_bit 8 (drop_bit (8 + k) w) = drop_bit k w" for k
    using split_low_byte [of "drop_bit k w"] by (simp add: drop_bit_drop_bit add.commute)
  have z: "drop_bit 64 w = 0"
    by (rule bit_word_eqI) (simp add: bit_simps)
  have "le_word (le_bytes w) =
     ucast (ucast (drop_bit 0 w) :: u8) OR push_bit 8 (
     ucast (ucast (drop_bit 8 w) :: u8) OR push_bit 8 (
     ucast (ucast (drop_bit 16 w) :: u8) OR push_bit 8 (
     ucast (ucast (drop_bit 24 w) :: u8) OR push_bit 8 (
     ucast (ucast (drop_bit 32 w) :: u8) OR push_bit 8 (
     ucast (ucast (drop_bit 40 w) :: u8) OR push_bit 8 (
     ucast (ucast (drop_bit 48 w) :: u8) OR push_bit 8 (
     ucast (ucast (drop_bit 56 w) :: u8) OR push_bit 8 (drop_bit 64 w))))))))"
    by (simp add: le_bytes_def upt_rec z)
  also have "\<dots> = drop_bit 0 w"
    using s [of 56] s [of 48] s [of 40] s [of 32] s [of 24] s [of 16] s [of 8] s [of 0]
    by simp
  finally show ?thesis by simp
qed

lemma read_u64_le_bytes: "read_u64 (bytes_at a (le_bytes w)) a = Some w"
proof -
  have "those (map (\<lambda>i. bytes_at a (le_bytes w) (a + of_nat i)) [0..<8]) = Some (le_bytes w)"
    by (simp add: bytes_at_def le_bytes_def upt_rec)
  then show ?thesis
    by (simp add: read_u64_def le_word_le_bytes)
qed

lemma read_u64_mapped:
  assumes "read_u64 mem a = Some w" and "i < 8"
  shows "mem (a + of_nat i) \<noteq> None"
proof -
  from assms(2) have "i \<in> {0, 1, 2, 3, 4, 5, 6, 7}" by auto
  with assms(1) show ?thesis
    by (auto simp add: read_u64_def upt_rec split: option.splits)
qed

lemma read_u64_cong:
  assumes "\<And>i. i < 8 \<Longrightarrow> m (a + of_nat i) = m' (a + of_nat i)"
  shows "read_u64 m a = read_u64 m' a"
proof -
  have "map (\<lambda>i. m (a + of_nat i)) [0..<8] = map (\<lambda>i. m' (a + of_nat i)) [0..<8]"
    using assms by simp
  then show ?thesis by (simp only: read_u64_def)
qed

text \<open>
  Through \<open>seen\<close> a read at the address of a slot of the saved registers returns the
  register as the context holds it at that moment, and a write to one register leaves
  every word that shares no byte with its slot as it was.
\<close>

lemma seen_slot_byte:
  assumes "k < 23" and "i < 8"
  shows "seen uc ctx mem (uc + 8 * of_nat k + of_nat i) =
           Some (ucast (drop_bit (8 * i) (ctx (gregs_order ! k))))"
proof -
  have eq: "(uc + 8 * of_nat k + of_nat i - uc :: u64) = of_nat (8 * k + i)"
    by simp
  have "unat (of_nat (8 * k + i) :: u64) = (8 * k + i) mod 2 ^ LENGTH(64)"
    by (rule unat_of_nat)
  also have "\<dots> = 8 * k + i"
    using assms by simp
  finally have u: "unat (uc + 8 * of_nat k + of_nat i - uc) = 8 * k + i"
    by (simp only: eq)
  from assms have "8 * k + i < 184" "(8 * k + i) div 8 = k" "(8 * k + i) mod 8 = i"
    by simp_all
  with u show ?thesis by (simp add: seen_def)
qed

lemma read_saved_register:
  assumes "k < 23"
  shows "read_u64 (seen uc ctx mem) (uc + 8 * of_nat k) = Some (ctx (gregs_order ! k))"
proof -
  have "map (\<lambda>i. seen uc ctx mem (uc + 8 * of_nat k + of_nat i)) [0..<8] =
        map (\<lambda>i. Some (ucast (drop_bit (8 * i) (ctx (gregs_order ! k))))) [0..<8]"
    using assms by (intro map_cong refl seen_slot_byte) simp_all
  also have "\<dots> = map Some (le_bytes (ctx (gregs_order ! k)))"
    by (simp add: le_bytes_def)
  finally have "those (map (\<lambda>i. seen uc ctx mem (uc + 8 * of_nat k + of_nat i)) [0..<8]) =
        Some (le_bytes (ctx (gregs_order ! k)))"
    by (simp add: le_bytes_def upt_rec)
  then show ?thesis
    by (simp add: read_u64_def le_word_le_bytes)
qed

lemma seen_other_slot:
  "\<not> in_slot uc r a \<Longrightarrow> seen uc (ctx(r := v)) mem a = seen uc ctx mem a"
  by (auto simp add: seen_def in_slot_def)

lemma read_apart:
  assumes "apart uc r a"
  shows "read_u64 (seen uc (ctx(r := v)) mem) a = read_u64 (seen uc ctx mem) a"
proof (rule read_u64_cong)
  fix i :: nat
  assume "i < 8"
  with assms have "\<not> in_slot uc r (a + of_nat i)"
    by (simp add: apart_def list_all_iff)
  then show "seen uc (ctx(r := v)) mem (a + of_nat i) = seen uc ctx mem (a + of_nat i)"
    by (rule seen_other_slot)
qed

subsection \<open>Invalid memory access: call or jump through a null pointer\<close>

text \<open>
  C1. When the saved instruction pointer is below \<open>0x10000\<close>, \<open>sigsegv_handler\<close> returns
  with the context rewritten: the instruction pointer is the word \<open>w\<close> that was at the
  top of the stack when the signal was delivered, the stack pointer is the old one plus
  8, the return-value register is 0; every other register and the shim's state are as
  before. The handler reads the stack word, before it writes anything, and nothing
  else: the memory at the faulting instruction pointer plays no part (the statement
  holds for every memory with that stack word), and the handler does not take the
  re-raise path.
\<close>

theorem sigsegv_null_call:
  assumes "ctx REG_RIP < 0x10000" and "read_u64 (seen uc ctx mem) (ctx REG_RSP) = Some w"
  shows "sigsegv_handler rs st uc mem sig si_addr ctx =
           Resume st (ctx(REG_RAX := 0, REG_RIP := w, REG_RSP := ctx REG_RSP + 8))"
  using assms by (simp add: sigsegv_handler_def)

theorem sigsegv_null_call_witness:
  "ctx_null_call REG_RIP < 0x10000
   \<and> read_u64 (seen uc0 ctx_null_call stack_ret) (ctx_null_call REG_RSP) = Some 0x401234
   \<and> sigsegv_handler kernel_sigaction armed uc0 stack_ret SIGSEGV 0 ctx_null_call =
      Resume armed (ctx_null_call(REG_RAX := 0, REG_RIP := 0x401234,
                                  REG_RSP := ctx_null_call REG_RSP + 8))"
proof -
  have a: "ctx_null_call REG_RIP < 0x10000"
    by (simp add: ctx_null_call_def)
  have b: "read_u64 (seen uc0 ctx_null_call stack_ret) (ctx_null_call REG_RSP) = Some 0x401234"
    by (simp add: fixture_defs)
  from sigsegv_null_call [OF a b] a b show ?thesis by blast
qed

subsection \<open>Invalid memory access: dereference of a null pointer\<close>

text \<open>
  C2, as stated, fails when the frame pointer leads into the saved registers. The
  handler zeroes the saved RAX before it reads the frame: with the frame pointer at the
  RAX slot, which held \<open>0x110d\<close> at delivery, the frame pointer it restores is 0, not
  the word \<open>0x110d\<close> that was stored at the old frame pointer.
\<close>

theorem sigsegv_frame_in_context_counterexample:
  "0x10000 \<le> ctx_rbp_at_rax REG_RIP \<and> (0x78 :: u64) < 0x10000
   \<and> 0x10000 < ctx_rbp_at_rax REG_RBP
   \<and> read_u64 (seen uc0 ctx_rbp_at_rax chain) (ctx_rbp_at_rax REG_RBP) = Some 0x110d
   \<and> read_u64 (seen uc0 ctx_rbp_at_rax chain) (ctx_rbp_at_rax REG_RBP + 8) = Some 0
   \<and> sigsegv_handler kernel_sigaction armed uc0 chain SIGSEGV 0x78 ctx_rbp_at_rax =
       Resume armed (ctx_rbp_at_rax(REG_RAX := 0, REG_RBP := 0, REG_RIP := 0,
                                    REG_RSP := ctx_rbp_at_rax REG_RBP + 16))
   \<and> (ctx_rbp_at_rax(REG_RAX := 0, REG_RBP := 0, REG_RIP := 0,
                       REG_RSP := ctx_rbp_at_rax REG_RBP + 16)) REG_RBP \<noteq> 0x110d"
proof -
  have regs: "ctx_rbp_at_rax REG_RIP = 0x400000" "ctx_rbp_at_rax REG_RSP = 0x7ffd0000"
    "ctx_rbp_at_rax REG_RBP = 0x7ffcf068"
    by (simp_all add: ctx_rbp_at_rax_def)
  have a: "read_u64 (seen uc0 ctx_rbp_at_rax chain) 0x7ffcf068 = Some 0x110d"
    by (simp add: fixture_defs)
  have b: "read_u64 (seen uc0 ctx_rbp_at_rax chain) 0x7ffcf070 = Some 0"
    by (simp add: fixture_defs)
  have c: "read_u64 (seen uc0 (ctx_rbp_at_rax(REG_RAX := 0)) chain) 0x7ffcf068 = Some 0"
    by (simp add: fixture_defs)
  have d: "read_u64 (seen uc0 (ctx_rbp_at_rax(REG_RAX := 0, REG_RBP := 0)) chain) 0x7ffcf070 = Some 0"
    by (simp add: fixture_defs)
  show ?thesis
    by (simp add: sigsegv_handler_def Let_def regs a b c d)
qed

text \<open>
  C2, amended. When the saved instruction pointer is at or above \<open>0x10000\<close>, the
  faulting address is below it, the frame pointer is above it, and the two frame words
  share no byte with the slots the handler writes before reading them (the word at the
  frame pointer with the RAX slot, the word above it with the RAX and RBP slots),
  \<open>sigsegv_handler\<close> returns the context of a frame-pointer return from the current
  function: the return-value register is 0, the frame pointer is the word saved at the
  old frame pointer, the instruction pointer is the word one slot above it, the stack
  pointer is the old frame pointer plus 16.
\<close>

theorem sigsegv_null_deref:
  assumes "0x10000 \<le> ctx REG_RIP" and "si_addr < 0x10000" and "0x10000 < ctx REG_RBP"
    and "read_u64 (seen uc ctx mem) (ctx REG_RBP) = Some saved_rbp"
    and "read_u64 (seen uc ctx mem) (ctx REG_RBP + 8) = Some ret_addr"
    and "apart uc REG_RAX (ctx REG_RBP)"
    and "apart uc REG_RAX (ctx REG_RBP + 8)"
    and "apart uc REG_RBP (ctx REG_RBP + 8)"
  shows "sigsegv_handler rs st uc mem sig si_addr ctx =
           Resume st (ctx(REG_RAX := 0, REG_RBP := saved_rbp, REG_RIP := ret_addr,
                          REG_RSP := ctx REG_RBP + 16))"
  using assms by (simp add: sigsegv_handler_def Let_def not_less [symmetric] read_apart)

text \<open>C2, amended, at a frame on the stack.\<close>

theorem sigsegv_null_deref_witness:
  "0x10000 \<le> ctx_code REG_RIP \<and> (0x78 :: u64) < 0x10000 \<and> 0x10000 < ctx_code REG_RBP
   \<and> read_u64 (seen uc0 ctx_code chain) (ctx_code REG_RBP) = Some 0x7ffd0010
   \<and> read_u64 (seen uc0 ctx_code chain) (ctx_code REG_RBP + 8) = Some 0x401111
   \<and> apart uc0 REG_RAX (ctx_code REG_RBP)
   \<and> apart uc0 REG_RAX (ctx_code REG_RBP + 8)
   \<and> apart uc0 REG_RBP (ctx_code REG_RBP + 8)
   \<and> sigsegv_handler kernel_sigaction armed uc0 chain SIGSEGV 0x78 ctx_code =
      Resume armed (ctx_code(REG_RAX := 0, REG_RBP := 0x7ffd0010, REG_RIP := 0x401111,
                             REG_RSP := ctx_code REG_RBP + 16))"
proof -
  have a: "0x10000 \<le> ctx_code REG_RIP" by (simp add: ctx_code_def)
  have b: "(0x78 :: u64) < 0x10000" by simp
  have c: "0x10000 < ctx_code REG_RBP" by (simp add: ctx_code_def)
  have d: "read_u64 (seen uc0 ctx_code chain) (ctx_code REG_RBP) = Some 0x7ffd0010"
    by (simp add: fixture_defs)
  have e: "read_u64 (seen uc0 ctx_code chain) (ctx_code REG_RBP + 8) = Some 0x401111"
    by (simp add: fixture_defs)
  have f: "apart uc0 REG_RAX (ctx_code REG_RBP)" "apart uc0 REG_RAX (ctx_code REG_RBP + 8)"
    "apart uc0 REG_RBP (ctx_code REG_RBP + 8)"
    by (simp_all add: ctx_code_def apart_fixtures)
  from sigsegv_null_deref [OF a b c d e f] a b c d e f show ?thesis by blast
qed

subsection \<open>Traps: the recognized encodings\<close>

lemma is_crash_no_match:
  assumes "read_u8 mem rip = Some insn0" and "insn0 \<noteq> 0xcc"
    and "insn0 \<noteq> 0x0f \<or> (\<exists>insn1. read_u8 mem (rip + 1) = Some insn1 \<and> insn1 \<noteq> 0x0b)"
  shows "is_crash mem rip = Inr False"
  using assms by (auto simp add: is_crash_def)

lemma is_crash_match:
  assumes "read_u8 mem rip = Some 0xcc
           \<or> (read_u8 mem rip = Some 0x0f \<and> read_u8 mem (rip + 1) = Some 0x0b)"
  shows "is_crash mem rip = Inr True"
  using assms by (auto simp add: is_crash_def)

subsection \<open>Traps: unwinding two frames\<close>

text \<open>
  C3, as stated, fails when the caller's frame lies in the saved registers. The
  handler zeroes the saved RAX before it reads the caller's frame: with the stub frame
  linking to the RAX slot, which held \<open>0x110d\<close> at delivery, the frame pointer it
  restores is 0, not the frame pointer \<open>0x110d\<close> that was saved in that frame.
\<close>

theorem crash_caller_frame_in_context_counterexample:
  "read_u8 (seen uc0 ctx_code_rax chain_to_rax) (ctx_code_rax REG_RIP) = Some 0xcc
   \<and> 0x10000 < ctx_code_rax REG_RBP
   \<and> read_u64 (seen uc0 ctx_code_rax chain_to_rax) (ctx_code_rax REG_RBP) = Some 0x7ffcf068
   \<and> (0x10000 :: u64) < 0x7ffcf068
   \<and> read_u64 (seen uc0 ctx_code_rax chain_to_rax) 0x7ffcf068 = Some 0x110d
   \<and> read_u64 (seen uc0 ctx_code_rax chain_to_rax) (0x7ffcf068 + 8) = Some 0x402222
   \<and> crash_handler kernel_sigaction armed uc0 chain_to_rax SIGTRAP ctx_code_rax =
       Resume armed (ctx_code_rax(REG_RAX := 0, REG_RBP := 0, REG_RIP := 0x402222,
                                  REG_RSP := 0x7ffcf068 + 16))
   \<and> (ctx_code_rax(REG_RAX := 0, REG_RBP := 0, REG_RIP := 0x402222,
                     REG_RSP := 0x7ffcf068 + 16)) REG_RBP \<noteq> 0x110d"
proof -
  have regs: "ctx_code_rax REG_RIP = 0x400000" "ctx_code_rax REG_RBP = 0x7ffd0000"
    by (simp_all add: ctx_code_rax_def)
  have i: "read_u8 (seen uc0 ctx_code_rax chain_to_rax) 0x400000 = Some 0xcc"
    by (simp add: fixture_defs)
  have a: "read_u64 (seen uc0 ctx_code_rax chain_to_rax) 0x7ffd0000 = Some 0x7ffcf068"
    by (simp add: fixture_defs)
  have b: "read_u64 (seen uc0 ctx_code_rax chain_to_rax) 0x7ffcf068 = Some 0x110d"
    by (simp add: fixture_defs)
  have c: "read_u64 (seen uc0 ctx_code_rax chain_to_rax) 0x7ffcf070 = Some 0x402222"
    by (simp add: fixture_defs)
  have d: "read_u64 (seen uc0 (ctx_code_rax(REG_RAX := 0)) chain_to_rax) 0x7ffcf068 = Some 0"
    by (simp add: fixture_defs)
  have e: "read_u64 (seen uc0 (ctx_code_rax(REG_RAX := 0, REG_RBP := 0)) chain_to_rax) 0x7ffcf070
             = Some 0x402222"
    by (simp add: fixture_defs)
  have m: "is_crash (seen uc0 ctx_code_rax chain_to_rax) 0x400000 = Inr True"
    using i by (simp add: is_crash_match)
  show ?thesis
    by (simp add: crash_handler_def Let_def regs i a b c d e m)
qed

text \<open>
  C3, amended. When the bytes at the saved instruction pointer are int3 (\<open>0xcc\<close>) or
  ud2 (\<open>0x0f 0x0b\<close>), the frame pointer is above \<open>0x10000\<close> and so is the caller's
  frame pointer saved in that frame, and the two words of the caller's frame share no
  byte with the slots the handler writes before reading them (the first with the RAX
  slot, the second with the RAX and RBP slots), \<open>crash_handler\<close> unwinds two frames:
  the instruction pointer is the return address stored in the caller's frame, the frame
  pointer is the frame pointer saved there, the stack pointer is the caller's frame
  pointer plus 16, and the return-value register is 0.
\<close>

theorem crash_two_frames:
  assumes "read_u8 (seen uc ctx mem) (ctx REG_RIP) = Some 0xcc
           \<or> (read_u8 (seen uc ctx mem) (ctx REG_RIP) = Some 0x0f
                \<and> read_u8 (seen uc ctx mem) (ctx REG_RIP + 1) = Some 0x0b)"
    and "0x10000 < ctx REG_RBP"
    and "read_u64 (seen uc ctx mem) (ctx REG_RBP) = Some caller_rbp"
    and "0x10000 < caller_rbp"
    and "read_u64 (seen uc ctx mem) caller_rbp = Some saved_rbp"
    and "read_u64 (seen uc ctx mem) (caller_rbp + 8) = Some ret_addr"
    and "apart uc REG_RAX caller_rbp"
    and "apart uc REG_RAX (caller_rbp + 8)"
    and "apart uc REG_RBP (caller_rbp + 8)"
  shows "crash_handler rs st uc mem sig ctx =
           Resume st (ctx(REG_RAX := 0, REG_RBP := saved_rbp, REG_RIP := ret_addr,
                          REG_RSP := caller_rbp + 16))"
proof -
  from assms(1) have "is_crash (seen uc ctx mem) (ctx REG_RIP) = Inr True"
    by (rule is_crash_match)
  with assms(2-) show ?thesis
    by (simp add: crash_handler_def Let_def read_apart)
qed

text \<open>C3, amended, at two chained frames on the stack.\<close>

theorem crash_two_frames_witness:
  "(read_u8 (seen uc0 ctx_code chain) (ctx_code REG_RIP) = Some 0xcc
      \<or> (read_u8 (seen uc0 ctx_code chain) (ctx_code REG_RIP) = Some 0x0f
           \<and> read_u8 (seen uc0 ctx_code chain) (ctx_code REG_RIP + 1) = Some 0x0b))
   \<and> 0x10000 < ctx_code REG_RBP
   \<and> read_u64 (seen uc0 ctx_code chain) (ctx_code REG_RBP) = Some 0x7ffd0010
   \<and> (0x10000 :: u64) < 0x7ffd0010
   \<and> read_u64 (seen uc0 ctx_code chain) 0x7ffd0010 = Some 0x7ffd0040
   \<and> read_u64 (seen uc0 ctx_code chain) (0x7ffd0010 + 8) = Some 0x402222
   \<and> apart uc0 REG_RAX 0x7ffd0010
   \<and> apart uc0 REG_RAX (0x7ffd0010 + 8)
   \<and> apart uc0 REG_RBP (0x7ffd0010 + 8)
   \<and> crash_handler kernel_sigaction armed uc0 chain SIGTRAP ctx_code =
      Resume armed (ctx_code(REG_RAX := 0, REG_RBP := 0x7ffd0040, REG_RIP := 0x402222,
                             REG_RSP := 0x7ffd0010 + 16))"
proof -
  have a: "read_u8 (seen uc0 ctx_code chain) (ctx_code REG_RIP) = Some 0xcc
      \<or> (read_u8 (seen uc0 ctx_code chain) (ctx_code REG_RIP) = Some 0x0f
           \<and> read_u8 (seen uc0 ctx_code chain) (ctx_code REG_RIP + 1) = Some 0x0b)"
    by (simp add: fixture_defs)
  have b: "0x10000 < ctx_code REG_RBP" by (simp add: ctx_code_def)
  have c: "read_u64 (seen uc0 ctx_code chain) (ctx_code REG_RBP) = Some 0x7ffd0010"
    by (simp add: fixture_defs)
  have d: "(0x10000 :: u64) < 0x7ffd0010" by simp
  have e: "read_u64 (seen uc0 ctx_code chain) 0x7ffd0010 = Some 0x7ffd0040"
    by (simp add: fixture_defs)
  have f: "read_u64 (seen uc0 ctx_code chain) (0x7ffd0010 + 8) = Some 0x402222"
    by (simp add: fixture_defs)
  have g: "apart uc0 REG_RAX 0x7ffd0010" "apart uc0 REG_RAX (0x7ffd0010 + 8)"
    "apart uc0 REG_RBP (0x7ffd0010 + 8)"
    by (simp_all add: apart_fixtures)
  from crash_two_frames [OF a b c d e f g] a b c d e f g show ?thesis by blast
qed

subsection \<open>Traps: the single-frame fallback\<close>

text \<open>
  C8, as stated, fails when the stub frame lies in the saved registers. The handler
  writes the saved RAX and RBP before it reads the return address: with the frame
  pointer at the RDX slot, the return-address slot is the RAX slot, which held
  \<open>0x110d\<close> at delivery, and the instruction pointer it restores is 0.
\<close>

theorem crash_stub_frame_in_context_counterexample:
  "read_u8 (seen uc0 ctx_rbp_at_rdx chain) (ctx_rbp_at_rdx REG_RIP) = Some 0xcc
   \<and> 0x10000 < ctx_rbp_at_rdx REG_RBP
   \<and> read_u64 (seen uc0 ctx_rbp_at_rdx chain) (ctx_rbp_at_rdx REG_RBP) = Some 0
   \<and> \<not> (0x10000 :: u64) < 0
   \<and> read_u64 (seen uc0 ctx_rbp_at_rdx chain) (ctx_rbp_at_rdx REG_RBP + 8) = Some 0x110d
   \<and> crash_handler kernel_sigaction armed uc0 chain SIGTRAP ctx_rbp_at_rdx =
       Resume armed (ctx_rbp_at_rdx(REG_RAX := 0, REG_RBP := 0, REG_RIP := 0,
                                    REG_RSP := ctx_rbp_at_rdx REG_RBP + 16))
   \<and> (ctx_rbp_at_rdx(REG_RAX := 0, REG_RBP := 0, REG_RIP := 0,
                       REG_RSP := ctx_rbp_at_rdx REG_RBP + 16)) REG_RIP \<noteq> 0x110d"
proof -
  have regs: "ctx_rbp_at_rdx REG_RIP = 0x400000" "ctx_rbp_at_rdx REG_RBP = 0x7ffcf060"
    by (simp_all add: ctx_rbp_at_rdx_def)
  have i: "read_u8 (seen uc0 ctx_rbp_at_rdx chain) 0x400000 = Some 0xcc"
    by (simp add: fixture_defs)
  have a: "read_u64 (seen uc0 ctx_rbp_at_rdx chain) 0x7ffcf060 = Some 0"
    by (simp add: fixture_defs)
  have b: "read_u64 (seen uc0 ctx_rbp_at_rdx chain) 0x7ffcf068 = Some 0x110d"
    by (simp add: fixture_defs)
  have c: "read_u64 (seen uc0 (ctx_rbp_at_rdx(REG_RAX := 0, REG_RBP := 0)) chain) 0x7ffcf068 = Some 0"
    by (simp add: fixture_defs)
  have m: "is_crash (seen uc0 ctx_rbp_at_rdx chain) 0x400000 = Inr True"
    using i by (simp add: is_crash_match)
  show ?thesis
    by (simp add: crash_handler_def Let_def regs i a b c m)
qed

text \<open>
  C8, amended. When the bytes at the saved instruction pointer are a recognized trap
  encoding and the frame pointer is above \<open>0x10000\<close>, but the caller's frame pointer
  saved in that frame is not, and the return-address word of the stub frame shares no
  byte with the RAX and RBP slots (which the handler writes before reading it),
  \<open>crash_handler\<close> unwinds one frame: the return-value register is 0, the frame pointer
  is that saved value, the instruction pointer is the return address stored in the
  stub's frame, and the stack pointer is the stub's frame pointer plus 16.
\<close>

theorem crash_single_frame:
  assumes "read_u8 (seen uc ctx mem) (ctx REG_RIP) = Some 0xcc
           \<or> (read_u8 (seen uc ctx mem) (ctx REG_RIP) = Some 0x0f
                \<and> read_u8 (seen uc ctx mem) (ctx REG_RIP + 1) = Some 0x0b)"
    and "0x10000 < ctx REG_RBP"
    and "read_u64 (seen uc ctx mem) (ctx REG_RBP) = Some caller_rbp"
    and "\<not> 0x10000 < caller_rbp"
    and "read_u64 (seen uc ctx mem) (ctx REG_RBP + 8) = Some ret_addr"
    and "apart uc REG_RAX (ctx REG_RBP + 8)"
    and "apart uc REG_RBP (ctx REG_RBP + 8)"
  shows "crash_handler rs st uc mem sig ctx =
           Resume st (ctx(REG_RAX := 0, REG_RBP := caller_rbp, REG_RIP := ret_addr,
                          REG_RSP := ctx REG_RBP + 16))"
proof -
  from assms(1) have "is_crash (seen uc ctx mem) (ctx REG_RIP) = Inr True"
    by (rule is_crash_match)
  with assms(2-) show ?thesis
    by (simp add: crash_handler_def Let_def read_apart)
qed

text \<open>C8, amended, at a frame on the stack.\<close>

theorem crash_single_frame_witness:
  "(read_u8 (seen uc0 ctx_code single) (ctx_code REG_RIP) = Some 0xcc
      \<or> (read_u8 (seen uc0 ctx_code single) (ctx_code REG_RIP) = Some 0x0f
           \<and> read_u8 (seen uc0 ctx_code single) (ctx_code REG_RIP + 1) = Some 0x0b))
   \<and> 0x10000 < ctx_code REG_RBP
   \<and> read_u64 (seen uc0 ctx_code single) (ctx_code REG_RBP) = Some 0
   \<and> \<not> (0x10000 :: u64) < 0
   \<and> read_u64 (seen uc0 ctx_code single) (ctx_code REG_RBP + 8) = Some 0x401111
   \<and> apart uc0 REG_RAX (ctx_code REG_RBP + 8)
   \<and> apart uc0 REG_RBP (ctx_code REG_RBP + 8)
   \<and> crash_handler kernel_sigaction armed uc0 single SIGILL ctx_code =
      Resume armed (ctx_code(REG_RAX := 0, REG_RBP := 0, REG_RIP := 0x401111,
                             REG_RSP := ctx_code REG_RBP + 16))"
proof -
  have a: "read_u8 (seen uc0 ctx_code single) (ctx_code REG_RIP) = Some 0xcc
      \<or> (read_u8 (seen uc0 ctx_code single) (ctx_code REG_RIP) = Some 0x0f
           \<and> read_u8 (seen uc0 ctx_code single) (ctx_code REG_RIP + 1) = Some 0x0b)"
    by (simp add: fixture_defs)
  have b: "0x10000 < ctx_code REG_RBP" by (simp add: ctx_code_def)
  have c: "read_u64 (seen uc0 ctx_code single) (ctx_code REG_RBP) = Some 0"
    by (simp add: fixture_defs)
  have d: "\<not> (0x10000 :: u64) < 0" by simp
  have e: "read_u64 (seen uc0 ctx_code single) (ctx_code REG_RBP + 8) = Some 0x401111"
    by (simp add: fixture_defs)
  have f: "apart uc0 REG_RAX (ctx_code REG_RBP + 8)" "apart uc0 REG_RBP (ctx_code REG_RBP + 8)"
    by (simp_all add: ctx_code_def apart_fixtures)
  from crash_single_frame [OF a b c d e f] a b c d e f show ?thesis by blast
qed

lemma kernel_query_pure:
  "s = SIGSEGV \<or> s = SIGTRAP \<or> s = SIGILL \<Longrightarrow> snd (snd (kernel_sigaction s None oldact e)) = e"
  by (auto simp add: kernel_sigaction_def const_defs)

subsection \<open>The guard on sigaction\<close>

text \<open>
  C4. While \<open>handlers_locked\<close> is set, a call of the interposed \<open>sigaction\<close> with a
  non-null \<open>act\<close> for SIGSEGV, SIGTRAP or SIGILL returns 0; the real facility is
  called at most once, as a read-only query (null \<open>act\<close>) whose answer fills a requested
  \<open>oldact\<close>, so the state after the call is the state before it whenever that query
  leaves the environment as it is: the installed handler stays. In every other case
  (flag unset, \<open>act\<close> null, or another signal) the call is the real facility's call
  with the same arguments, and its result is returned.
\<close>

theorem sigaction_guard:
  "(handlers_locked st \<and> (signum = SIGSEGV \<or> signum = SIGTRAP \<or> signum = SIGILL) \<longrightarrow>
      sigaction rs st signum (Some a) oldact =
        (if oldact
         then (0, fst (snd (rs signum None True (env st))),
               st\<lparr>env := snd (snd (rs signum None True (env st)))\<rparr>)
         else (0, None, st))
      \<and> (snd (snd (rs signum None True (env st))) = env st \<longrightarrow>
            snd (snd (sigaction rs st signum (Some a) oldact)) = st))
   \<and> (\<not> handlers_locked st \<or> act = None
        \<or> \<not> (signum = SIGSEGV \<or> signum = SIGTRAP \<or> signum = SIGILL) \<longrightarrow>
      sigaction rs st signum act oldact = forward_sigaction rs st signum act oldact)"
proof -
  have guarded: "sigaction rs st signum (Some a) oldact =
        (if oldact
         then (0, fst (snd (rs signum None True (env st))),
               st\<lparr>env := snd (snd (rs signum None True (env st)))\<rparr>)
         else (0, None, st))"
    if "handlers_locked st" and "signum = SIGSEGV \<or> signum = SIGTRAP \<or> signum = SIGILL"
    using that by (simp add: sigaction_def managed_def split: prod.splits)
  have unchanged: "snd (snd (sigaction rs st signum (Some a) oldact)) = st"
    if "handlers_locked st" and "signum = SIGSEGV \<or> signum = SIGTRAP \<or> signum = SIGILL"
      and "snd (snd (rs signum None True (env st))) = env st"
    using that guarded by simp
  have forwarded: "sigaction rs st signum act oldact = forward_sigaction rs st signum act oldact"
    if "\<not> handlers_locked st \<or> act = None
        \<or> \<not> (signum = SIGSEGV \<or> signum = SIGTRAP \<or> signum = SIGILL)"
    using that by (auto simp add: sigaction_def forward_sigaction_def managed_def)
  from guarded unchanged forwarded show ?thesis by blast
qed

theorem sigaction_guard_witness:
  "handlers_locked armed
   \<and> snd (snd (kernel_sigaction SIGSEGV None True (env armed))) = env armed
   \<and> sigaction kernel_sigaction armed SIGSEGV
        (Some \<lparr>sa_handler = Host_handler 0x500000, sa_flags = 4, sa_mask = 0\<rparr>) True =
      (0, Some \<lparr>sa_handler = Sigsegv_handler, sa_flags = 0x40000004, sa_mask = 0\<rparr>, armed)
   \<and> sa_handler (kernel (env (snd (snd (sigaction kernel_sigaction armed SIGSEGV
        (Some \<lparr>sa_handler = Host_handler 0x500000, sa_flags = 4, sa_mask = 0\<rparr>) True)))) SIGSEGV)
      = Sigsegv_handler
   \<and> sigaction kernel_sigaction armed 10
        (Some \<lparr>sa_handler = Host_handler 0x500000, sa_flags = 4, sa_mask = 0\<rparr>) False =
      forward_sigaction kernel_sigaction armed 10
        (Some \<lparr>sa_handler = Host_handler 0x500000, sa_flags = 4, sa_mask = 0\<rparr>) False
   \<and> sa_handler (kernel (env (snd (snd (sigaction kernel_sigaction armed 10
        (Some \<lparr>sa_handler = Host_handler 0x500000, sa_flags = 4, sa_mask = 0\<rparr>) False)))) 10)
      = Host_handler 0x500000"
proof -
  let ?a = "\<lparr>sa_handler = Host_handler 0x500000, sa_flags = 4, sa_mask = 0\<rparr>"
  have pure: "snd (snd (kernel_sigaction SIGSEGV None True (env armed))) = env armed"
    by (simp add: kernel_query_pure)
  have q: "fst (snd (kernel_sigaction SIGSEGV None True (env armed)))
           = Some \<lparr>sa_handler = Sigsegv_handler, sa_flags = 0x40000004, sa_mask = 0\<rparr>"
    by (simp add: armed_def init_def kernel_sigaction_def initial_state_def boot_env_def
        const_defs Let_def)
  have g: "sigaction kernel_sigaction armed SIGSEGV (Some ?a) True =
             (0, Some \<lparr>sa_handler = Sigsegv_handler, sa_flags = 0x40000004, sa_mask = 0\<rparr>, armed)"
    using sigaction_guard [of armed SIGSEGV kernel_sigaction ?a True] armed_locked pure q
    by simp
  have ten: "(10 :: cint) \<noteq> SIGSEGV \<and> (10 :: cint) \<noteq> SIGTRAP \<and> (10 :: cint) \<noteq> SIGILL"
    by (simp add: const_defs)
  have p: "sigaction kernel_sigaction armed 10 (Some ?a) False =
             forward_sigaction kernel_sigaction armed 10 (Some ?a) False"
    using sigaction_guard [of armed 10 kernel_sigaction ?a False "Some ?a"] ten by simp
  have p2: "sa_handler (kernel (env (snd (snd (forward_sigaction kernel_sigaction armed 10 (Some ?a) False)))) 10)
      = Host_handler 0x500000"
    by (simp add: forward_sigaction_def kernel_sigaction_def)
  show ?thesis
    using armed_locked pure g p p2 armed_kernel(1) by simp
qed

subsection \<open>The interposed syscall\<close>

text \<open>
  C5. A call of the interposed \<open>syscall\<close> with the number \<open>SYS_clone3\<close> returns -1 with
  errno set to \<open>ENOSYS\<close> and nothing else changed, whatever the real facility and the
  arguments are (it is not called). With any other number the six slots
  \<open>ap 0 .. ap 5\<close> are passed with the number to the real facility, whose return value
  and environment are the result.
\<close>

theorem syscall_clone3:
  "(number = SYS_clone3 \<longrightarrow>
      syscall ry st number ap = (- 1, st\<lparr>env := (env st)\<lparr>errno := ENOSYS\<rparr>\<rparr>)
      \<and> syscall ry st number ap = syscall ry' st number ap')
   \<and> (number \<noteq> SYS_clone3 \<longrightarrow>
      syscall ry st number ap =
        (fst (ry number [ap 0, ap 1, ap 2, ap 3, ap 4, ap 5] (env st)),
         st\<lparr>env := snd (ry number [ap 0, ap 1, ap 2, ap 3, ap 4, ap 5] (env st))\<rparr>))"
  by (simp add: syscall_def Let_def split: prod.splits)

theorem syscall_clone3_witness:
  "syscall sum_syscall armed SYS_clone3 (\<lambda>i. 7) = (- 1, armed\<lparr>env := (env armed)\<lparr>errno := ENOSYS\<rparr>\<rparr>)
   \<and> (39 :: long) \<noteq> SYS_clone3
   \<and> syscall sum_syscall armed 39 (\<lambda>i. of_nat i) = (54, armed)"
proof -
  have a: "(39 :: long) \<noteq> SYS_clone3" by (simp add: SYS_clone3_def)
  have b: "sum_syscall 39 [of_nat 0, of_nat 1, of_nat 2, of_nat 3, of_nat 4, of_nat 5] (env armed) = (54, env armed)"
    by (simp add: sum_syscall_def)
  show ?thesis
    using syscall_clone3 [of SYS_clone3 sum_syscall armed "\<lambda>i. 7"]
      syscall_clone3 [of 39 sum_syscall armed "\<lambda>i. of_nat i"] a b
    by simp
qed

subsection \<open>Faults outside the recognized patterns\<close>

text \<open>
  The handlers ask for the default disposition with \<^verbatim>\<open>sigaction(sig, &sa, NULL)\<close>, which
  is the interposed \<open>sigaction\<close>, and clear \<open>handlers_locked\<close> only afterwards. While the
  flag is set the guard discards that request.
\<close>

lemma own_request_discarded:
  "handlers_locked st \<Longrightarrow> managed signum \<Longrightarrow> sigaction rs st signum (Some a) False = (0, None, st)"
  by (simp add: sigaction_def)

lemma own_request_forwarded:
  "\<not> handlers_locked st \<Longrightarrow>
   sigaction rs st signum (Some a) False = forward_sigaction rs st signum (Some a) False"
  by (simp add: sigaction_def forward_sigaction_def)

lemma sigsegv_genuine:
  assumes "0x10000 \<le> ctx REG_RIP" and "0x10000 \<le> si_addr"
  shows "sigsegv_handler rs st uc mem sig si_addr ctx =
           Reraise ((snd (snd (sigaction rs st SIGSEGV (Some sig_dfl_action) False)))
                      \<lparr>handlers_locked := False\<rparr>) SIGSEGV ctx"
  using assms by (simp add: sigsegv_handler_def Let_def not_less [symmetric] split: prod.splits)

lemma sigsegv_genuine_armed:
  assumes "0x10000 \<le> ctx REG_RIP" and "0x10000 \<le> si_addr" and "handlers_locked st"
  shows "sigsegv_handler rs st uc mem sig si_addr ctx =
           Reraise (st\<lparr>handlers_locked := False\<rparr>) SIGSEGV ctx"
  using assms by (simp add: sigsegv_genuine own_request_discarded managed_def)

lemma sigsegv_genuine_unarmed:
  assumes "0x10000 \<le> ctx REG_RIP" and "0x10000 \<le> si_addr" and "\<not> handlers_locked st"
  shows "sigsegv_handler rs st uc mem sig si_addr ctx =
           Reraise ((snd (snd (forward_sigaction rs st SIGSEGV (Some sig_dfl_action) False)))
                      \<lparr>handlers_locked := False\<rparr>) SIGSEGV ctx"
  using assms by (simp add: sigsegv_genuine own_request_forwarded)

lemma crash_not_stub:
  assumes "is_crash (seen uc ctx mem) (ctx REG_RIP) = Inr c" and "\<not> (c \<and> 0x10000 < ctx REG_RBP)"
  shows "crash_handler rs st uc mem sig ctx =
           Reraise ((snd (snd (sigaction rs st sig (Some sig_dfl_action) False)))
                      \<lparr>handlers_locked := False\<rparr>) sig ctx"
  using assms by (auto simp add: crash_handler_def Let_def split: prod.splits)

lemma crash_not_stub_armed:
  assumes "is_crash (seen uc ctx mem) (ctx REG_RIP) = Inr c" and "\<not> (c \<and> 0x10000 < ctx REG_RBP)"
    and "handlers_locked st" and "managed sig"
  shows "crash_handler rs st uc mem sig ctx = Reraise (st\<lparr>handlers_locked := False\<rparr>) sig ctx"
  using assms by (simp add: crash_not_stub own_request_discarded)

lemma crash_not_stub_unarmed:
  assumes "is_crash (seen uc ctx mem) (ctx REG_RIP) = Inr c" and "\<not> (c \<and> 0x10000 < ctx REG_RBP)"
    and "\<not> handlers_locked st"
  shows "crash_handler rs st uc mem sig ctx =
           Reraise ((snd (snd (forward_sigaction rs st sig (Some sig_dfl_action) False)))
                      \<lparr>handlers_locked := False\<rparr>) sig ctx"
  using assms by (simp add: crash_not_stub own_request_forwarded)

text \<open>
  C6. In the process as the constructor leaves it, a SIGSEGV whose instruction pointer
  and faulting address are both at or above \<open>0x10000\<close>, and a SIGTRAP at an instruction
  that is neither int3 nor ud2, end in \<^verbatim>\<open>raise\<close> with the flag cleared and the context
  unmodified, but with the environment untouched: the disposition of the signal is
  still the shim's handler, not \<open>SIG_DFL\<close>.
\<close>

theorem unrecognized_fault_keeps_handler:
  "0x10000 \<le> ctx_code REG_RIP \<and> (0x10000 :: u64) \<le> 0x7ffd1000
   \<and> sigsegv_handler kernel_sigaction armed uc0 chain SIGSEGV 0x7ffd1000 ctx_code =
       Reraise (armed\<lparr>handlers_locked := False\<rparr>) SIGSEGV ctx_code
   \<and> sa_handler (kernel (env (armed\<lparr>handlers_locked := False\<rparr>)) SIGSEGV) = Sigsegv_handler
   \<and> read_u8 (seen uc0 ctx_code nops) (ctx_code REG_RIP) = Some 0x90
   \<and> crash_handler kernel_sigaction armed uc0 nops SIGTRAP ctx_code =
       Reraise (armed\<lparr>handlers_locked := False\<rparr>) SIGTRAP ctx_code
   \<and> sa_handler (kernel (env (armed\<lparr>handlers_locked := False\<rparr>)) SIGTRAP) = Crash_handler"
proof -
  have a: "0x10000 \<le> ctx_code REG_RIP" by (simp add: ctx_code_def)
  have b: "(0x10000 :: u64) \<le> 0x7ffd1000" by simp
  have c: "read_u8 (seen uc0 ctx_code nops) (ctx_code REG_RIP) = Some 0x90" by (simp add: fixture_defs)
  have d: "is_crash (seen uc0 ctx_code nops) (ctx_code REG_RIP) = Inr False"
    by (rule is_crash_no_match [OF c]) simp_all
  have e: "managed SIGTRAP" by (simp add: managed_def)
  have f: "crash_handler kernel_sigaction armed uc0 nops SIGTRAP ctx_code =
       Reraise (armed\<lparr>handlers_locked := False\<rparr>) SIGTRAP ctx_code"
    using crash_not_stub_armed [where ctx = ctx_code and c = False, OF d _ armed_locked e]
    by simp
  have g: "sigsegv_handler kernel_sigaction armed uc0 chain SIGSEGV 0x7ffd1000 ctx_code =
       Reraise (armed\<lparr>handlers_locked := False\<rparr>) SIGSEGV ctx_code"
    using sigsegv_genuine_armed [where ctx = ctx_code, OF a b armed_locked] .
  from a b c f g armed_kernel show ?thesis
    by simp
qed

text \<open>
  With the flag already clear (as in the delivery that \<^verbatim>\<open>raise\<close> then causes), the same
  fault does install the default disposition.
\<close>

lemma second_delivery_restores_default:
  "sigsegv_handler kernel_sigaction (armed\<lparr>handlers_locked := False\<rparr>) uc0 chain SIGSEGV 0x7ffd1000 ctx_code =
     Reraise (armed\<lparr>handlers_locked := False,
                   env := (env armed)\<lparr>kernel := (kernel (env armed))(SIGSEGV := sig_dfl_action)\<rparr>\<rparr>)
       SIGSEGV ctx_code"
proof -
  have a: "0x10000 \<le> ctx_code REG_RIP" by (simp add: ctx_code_def)
  have b: "(0x10000 :: u64) \<le> 0x7ffd1000" by simp
  have c: "\<not> handlers_locked (armed\<lparr>handlers_locked := False\<rparr>)" by simp
  show ?thesis
    by (simp add: sigsegv_genuine_unarmed [where ctx = ctx_code, OF a b c]
        forward_sigaction_def kernel_sigaction_def const_defs)
qed

subsection \<open>Fallbacks when a frame pointer is not valid\<close>

text \<open>
  C7, as stated, fails for traps: with int3 at the instruction pointer, a null frame
  pointer and a readable return address at the top of the stack, \<open>crash_handler\<close> does
  not resume at that return address; it takes the re-raise path.
\<close>

theorem trap_without_frame_counterexample:
  "read_u8 (seen uc0 ctx_nofp chain) (ctx_nofp REG_RIP) = Some 0xcc
   \<and> ctx_nofp REG_RBP < 0x10000
   \<and> read_u64 (seen uc0 ctx_nofp chain) (ctx_nofp REG_RSP) = Some 0x401111
   \<and> crash_handler kernel_sigaction armed uc0 chain SIGTRAP ctx_nofp =
       Reraise (armed\<lparr>handlers_locked := False\<rparr>) SIGTRAP ctx_nofp
   \<and> crash_handler kernel_sigaction armed uc0 chain SIGTRAP ctx_nofp \<noteq>
       Resume armed (ctx_nofp(REG_RAX := 0, REG_RIP := 0x401111,
                              REG_RSP := ctx_nofp REG_RSP + 8))"
proof -
  have a: "read_u8 (seen uc0 ctx_nofp chain) (ctx_nofp REG_RIP) = Some 0xcc"
    by (simp add: fixture_defs)
  have b: "ctx_nofp REG_RBP < 0x10000" by (simp add: ctx_nofp_def)
  have c: "read_u64 (seen uc0 ctx_nofp chain) (ctx_nofp REG_RSP) = Some 0x401111"
    by (simp add: fixture_defs)
  have d: "is_crash (seen uc0 ctx_nofp chain) (ctx_nofp REG_RIP) = Inr True"
    using a by (simp add: is_crash_match)
  have e: "\<not> (True \<and> 0x10000 < ctx_nofp REG_RBP)" by (simp add: ctx_nofp_def)
  have m: "managed SIGTRAP" by (simp add: managed_def)
  have f: "crash_handler kernel_sigaction armed uc0 chain SIGTRAP ctx_nofp =
       Reraise (armed\<lparr>handlers_locked := False\<rparr>) SIGTRAP ctx_nofp"
    using crash_not_stub_armed [where ctx = ctx_nofp and c = True, OF d e armed_locked m] .
  from a b c f show ?thesis by simp
qed

text \<open>
  C7, amended. For SIGSEGV with the faulting address below \<open>0x10000\<close> and a frame
  pointer not above \<open>0x10000\<close>, \<open>sigsegv_handler\<close> falls back to the word at the top of
  the stack (instruction pointer = that word, stack pointer + 8, return value 0),
  provided that word shares no byte with the RAX slot, which is written first. For a
  recognized trap whose frame pointer is not above \<open>0x10000\<close>, \<open>crash_handler\<close> makes no
  such fallback: it clears the flag and re-raises the signal with the context
  unmodified. For a recognized trap with a valid frame pointer whose saved caller frame
  pointer is not above \<open>0x10000\<close>, it unwinds the single frame, provided the
  return-address word shares no byte with the RAX and RBP slots.
\<close>

theorem unwind_fallback_policy:
  "(si_addr < 0x10000 \<and> \<not> 0x10000 < ctx REG_RBP
      \<and> read_u64 (seen uc ctx mem) (ctx REG_RSP) = Some w
      \<and> apart uc REG_RAX (ctx REG_RSP) \<longrightarrow>
    sigsegv_handler rs st uc mem sig si_addr ctx =
      Resume st (ctx(REG_RAX := 0, REG_RIP := w, REG_RSP := ctx REG_RSP + 8)))
   \<and> ((read_u8 (seen uc ctx mem) (ctx REG_RIP) = Some 0xcc
         \<or> (read_u8 (seen uc ctx mem) (ctx REG_RIP) = Some 0x0f
              \<and> read_u8 (seen uc ctx mem) (ctx REG_RIP + 1) = Some 0x0b))
       \<and> \<not> 0x10000 < ctx REG_RBP \<longrightarrow>
    (\<exists>st'. crash_handler rs st uc mem sig ctx = Reraise st' sig ctx \<and> \<not> handlers_locked st'))
   \<and> ((read_u8 (seen uc ctx mem) (ctx REG_RIP) = Some 0xcc
         \<or> (read_u8 (seen uc ctx mem) (ctx REG_RIP) = Some 0x0f
              \<and> read_u8 (seen uc ctx mem) (ctx REG_RIP + 1) = Some 0x0b))
       \<and> 0x10000 < ctx REG_RBP \<and> read_u64 (seen uc ctx mem) (ctx REG_RBP) = Some caller_rbp
       \<and> \<not> 0x10000 < caller_rbp
       \<and> read_u64 (seen uc ctx mem) (ctx REG_RBP + 8) = Some ret_addr
       \<and> apart uc REG_RAX (ctx REG_RBP + 8) \<and> apart uc REG_RBP (ctx REG_RBP + 8) \<longrightarrow>
    crash_handler rs st uc mem sig ctx =
      Resume st (ctx(REG_RAX := 0, REG_RBP := caller_rbp, REG_RIP := ret_addr,
                     REG_RSP := ctx REG_RBP + 16)))"
proof (intro conjI impI)
  assume h: "si_addr < 0x10000 \<and> \<not> 0x10000 < ctx REG_RBP
      \<and> read_u64 (seen uc ctx mem) (ctx REG_RSP) = Some w
      \<and> apart uc REG_RAX (ctx REG_RSP)"
  show "sigsegv_handler rs st uc mem sig si_addr ctx =
      Resume st (ctx(REG_RAX := 0, REG_RIP := w, REG_RSP := ctx REG_RSP + 8))"
  proof (cases "ctx REG_RIP < 0x10000")
    case True
    with h show ?thesis by (simp add: sigsegv_handler_def)
  next
    case False
    with h show ?thesis by (simp add: sigsegv_handler_def Let_def read_apart)
  qed
next
  assume h: "(read_u8 (seen uc ctx mem) (ctx REG_RIP) = Some 0xcc
         \<or> (read_u8 (seen uc ctx mem) (ctx REG_RIP) = Some 0x0f
              \<and> read_u8 (seen uc ctx mem) (ctx REG_RIP + 1) = Some 0x0b))
       \<and> \<not> 0x10000 < ctx REG_RBP"
  then have "is_crash (seen uc ctx mem) (ctx REG_RIP) = Inr True"
    by (simp add: is_crash_match)
  moreover from h have "\<not> (True \<and> 0x10000 < ctx REG_RBP)" by simp
  ultimately have "crash_handler rs st uc mem sig ctx =
           Reraise ((snd (snd (sigaction rs st sig (Some sig_dfl_action) False)))
                      \<lparr>handlers_locked := False\<rparr>) sig ctx"
    by (rule crash_not_stub)
  then show "\<exists>st'. crash_handler rs st uc mem sig ctx = Reraise st' sig ctx \<and> \<not> handlers_locked st'"
    by simp
next
  assume h: "(read_u8 (seen uc ctx mem) (ctx REG_RIP) = Some 0xcc
         \<or> (read_u8 (seen uc ctx mem) (ctx REG_RIP) = Some 0x0f
              \<and> read_u8 (seen uc ctx mem) (ctx REG_RIP + 1) = Some 0x0b))
       \<and> 0x10000 < ctx REG_RBP \<and> read_u64 (seen uc ctx mem) (ctx REG_RBP) = Some caller_rbp
       \<and> \<not> 0x10000 < caller_rbp
       \<and> read_u64 (seen uc ctx mem) (ctx REG_RBP + 8) = Some ret_addr
       \<and> apart uc REG_RAX (ctx REG_RBP + 8) \<and> apart uc REG_RBP (ctx REG_RBP + 8)"
  then have "is_crash (seen uc ctx mem) (ctx REG_RIP) = Inr True"
    by (simp add: is_crash_match)
  with h show "crash_handler rs st uc mem sig ctx =
      Resume st (ctx(REG_RAX := 0, REG_RBP := caller_rbp, REG_RIP := ret_addr,
                     REG_RSP := ctx REG_RBP + 16))"
    by (simp add: crash_handler_def Let_def read_apart)
qed

text \<open>C7, amended: the three cases at concrete inputs.\<close>

theorem unwind_fallback_policy_witness:
  "(0x78 :: u64) < 0x10000 \<and> \<not> 0x10000 < ctx_nofp REG_RBP
   \<and> read_u64 (seen uc0 ctx_nofp chain) (ctx_nofp REG_RSP) = Some 0x401111
   \<and> apart uc0 REG_RAX (ctx_nofp REG_RSP)
   \<and> sigsegv_handler kernel_sigaction armed uc0 chain SIGSEGV 0x78 ctx_nofp =
       Resume armed (ctx_nofp(REG_RAX := 0, REG_RIP := 0x401111, REG_RSP := ctx_nofp REG_RSP + 8))
   \<and> read_u8 (seen uc0 ctx_nofp chain) (ctx_nofp REG_RIP) = Some 0xcc
   \<and> (\<exists>st'. crash_handler kernel_sigaction armed uc0 chain SIGTRAP ctx_nofp = Reraise st' SIGTRAP ctx_nofp
              \<and> \<not> handlers_locked st')
   \<and> read_u8 (seen uc0 ctx_code single) (ctx_code REG_RIP) = Some 0x0f
   \<and> read_u8 (seen uc0 ctx_code single) (ctx_code REG_RIP + 1) = Some 0x0b
   \<and> 0x10000 < ctx_code REG_RBP \<and> read_u64 (seen uc0 ctx_code single) (ctx_code REG_RBP) = Some 0
   \<and> \<not> (0x10000 :: u64) < 0
   \<and> read_u64 (seen uc0 ctx_code single) (ctx_code REG_RBP + 8) = Some 0x401111
   \<and> apart uc0 REG_RAX (ctx_code REG_RBP + 8) \<and> apart uc0 REG_RBP (ctx_code REG_RBP + 8)
   \<and> crash_handler kernel_sigaction armed uc0 single SIGTRAP ctx_code =
       Resume armed (ctx_code(REG_RAX := 0, REG_RBP := 0, REG_RIP := 0x401111,
                              REG_RSP := ctx_code REG_RBP + 16))"
proof -
  have a1: "(0x78 :: u64) < 0x10000 \<and> \<not> 0x10000 < ctx_nofp REG_RBP
      \<and> read_u64 (seen uc0 ctx_nofp chain) (ctx_nofp REG_RSP) = Some 0x401111"
    by (simp add: fixture_defs)
  have a2: "apart uc0 REG_RAX (ctx_nofp REG_RSP)"
    by (simp add: ctx_nofp_def apart_fixtures)
  note a = a1 a2
  have b: "read_u8 (seen uc0 ctx_nofp chain) (ctx_nofp REG_RIP) = Some 0xcc"
    by (simp add: fixture_defs)
  have c: "read_u8 (seen uc0 ctx_code single) (ctx_code REG_RIP) = Some 0x0f
     \<and> read_u8 (seen uc0 ctx_code single) (ctx_code REG_RIP + 1) = Some 0x0b
     \<and> 0x10000 < ctx_code REG_RBP \<and> read_u64 (seen uc0 ctx_code single) (ctx_code REG_RBP) = Some 0
     \<and> \<not> (0x10000 :: u64) < 0
     \<and> read_u64 (seen uc0 ctx_code single) (ctx_code REG_RBP + 8) = Some 0x401111"
    by (simp add: fixture_defs)
  have d: "apart uc0 REG_RAX (ctx_code REG_RBP + 8) \<and> apart uc0 REG_RBP (ctx_code REG_RBP + 8)"
    by (simp add: ctx_code_def apart_fixtures)
  note p2 = unwind_fallback_policy [where ctx = ctx_nofp and mem = chain and uc = uc0
      and rs = kernel_sigaction and st = armed and sig = SIGTRAP, THEN conjunct2, THEN conjunct1]
  note p3 = unwind_fallback_policy [where ctx = ctx_code and mem = single and uc = uc0
      and caller_rbp = 0 and ret_addr = "0x401111" and rs = kernel_sigaction and st = armed
      and sig = SIGTRAP, THEN conjunct2, THEN conjunct2]
  have q1: "sigsegv_handler kernel_sigaction armed uc0 chain SIGSEGV 0x78 ctx_nofp =
       Resume armed (ctx_nofp(REG_RAX := 0, REG_RIP := 0x401111, REG_RSP := ctx_nofp REG_RSP + 8))"
    using unwind_fallback_policy [where ctx = ctx_nofp and mem = chain and uc = uc0
      and si_addr = "0x78" and w = "0x401111" and rs = kernel_sigaction and st = armed
      and sig = SIGSEGV, THEN conjunct1] a
    by blast
  have q2: "\<exists>st'. crash_handler kernel_sigaction armed uc0 chain SIGTRAP ctx_nofp = Reraise st' SIGTRAP ctx_nofp
              \<and> \<not> handlers_locked st'"
    using p2 a b by blast
  have q3: "crash_handler kernel_sigaction armed uc0 single SIGTRAP ctx_code =
       Resume armed (ctx_code(REG_RAX := 0, REG_RBP := 0, REG_RIP := 0x401111,
                              REG_RSP := ctx_code REG_RBP + 16))"
    using p3 c d by blast
  from a b c d q1 q2 q3 show ?thesis by blast
qed

subsection \<open>Where a rewritten context resumes\<close>

text \<open>
  C9, as stated, fails: after a jump through a null pointer with the datum \<open>0xdeadbeef\<close>
  at the top of the stack, \<open>sigsegv_handler\<close> returns a context whose instruction pointer
  is \<open>0xdeadbeef\<close>, where no byte is mapped.
\<close>

theorem resume_unmapped_counterexample:
  "sigsegv_handler kernel_sigaction armed uc0 stack_data SIGSEGV 0 ctx_null_call =
     Resume armed (ctx_null_call(REG_RAX := 0, REG_RIP := 0xdeadbeef,
                                 REG_RSP := ctx_null_call REG_RSP + 8))
   \<and> (ctx_null_call(REG_RAX := 0, REG_RIP := 0xdeadbeef,
                     REG_RSP := ctx_null_call REG_RSP + 8)) REG_RIP = 0xdeadbeef
   \<and> seen uc0 (ctx_null_call(REG_RAX := 0, REG_RIP := 0xdeadbeef,
                     REG_RSP := ctx_null_call REG_RSP + 8)) stack_data 0xdeadbeef = None"
proof -
  have a: "ctx_null_call REG_RIP < 0x10000" by (simp add: ctx_null_call_def)
  have b: "read_u64 (seen uc0 ctx_null_call stack_data) (ctx_null_call REG_RSP) = Some 0xdeadbeef"
    by (simp add: fixture_defs)
  have c: "seen uc0 (ctx_null_call(REG_RAX := 0, REG_RIP := 0xdeadbeef,
                     REG_RSP := ctx_null_call REG_RSP + 8)) stack_data 0xdeadbeef = None"
    by (simp add: seen_def uc0_def stack_data_def bytes_at_def le_bytes_def)
  from a b c show ?thesis by (simp add: sigsegv_handler_def)
qed

lemma sigsegv_handler_cases:
  "(\<exists>w. read_u64 (seen uc ctx mem) (ctx REG_RSP) = Some w
        \<and> sigsegv_handler rs st uc mem sig si_addr ctx =
            Resume st (ctx(REG_RAX := 0, REG_RIP := w, REG_RSP := ctx REG_RSP + 8)))
   \<or> (\<exists>w. read_u64 (seen uc (ctx(REG_RAX := 0)) mem) (ctx REG_RSP) = Some w
        \<and> sigsegv_handler rs st uc mem sig si_addr ctx =
            Resume st (ctx(REG_RAX := 0, REG_RIP := w, REG_RSP := ctx REG_RSP + 8)))
   \<or> (\<exists>f0 f1. read_u64 (seen uc (ctx(REG_RAX := 0)) mem) (ctx REG_RBP) = Some f0
        \<and> read_u64 (seen uc (ctx(REG_RAX := 0, REG_RBP := f0)) mem) (ctx REG_RBP + 8) = Some f1
        \<and> sigsegv_handler rs st uc mem sig si_addr ctx =
            Resume st (ctx(REG_RAX := 0, REG_RBP := f0, REG_RIP := f1, REG_RSP := ctx REG_RBP + 16)))
   \<or> (\<exists>st'. \<not> handlers_locked st' \<and> sigsegv_handler rs st uc mem sig si_addr ctx = Reraise st' SIGSEGV ctx)
   \<or> (\<exists>a. sigsegv_handler rs st uc mem sig si_addr ctx = Fault a)"
  by (auto simp add: sigsegv_handler_def Let_def split: option.splits prod.splits)

lemma crash_handler_cases:
  "(\<exists>c0 c1 caller_rbp. read_u64 (seen uc ctx mem) (ctx REG_RBP) = Some caller_rbp
        \<and> read_u64 (seen uc (ctx(REG_RAX := 0)) mem) caller_rbp = Some c0
        \<and> read_u64 (seen uc (ctx(REG_RAX := 0, REG_RBP := c0)) mem) (caller_rbp + 8) = Some c1
        \<and> crash_handler rs st uc mem sig ctx =
            Resume st (ctx(REG_RAX := 0, REG_RBP := c0, REG_RIP := c1, REG_RSP := caller_rbp + 16)))
   \<or> (\<exists>caller_rbp s1. read_u64 (seen uc ctx mem) (ctx REG_RBP) = Some caller_rbp
        \<and> read_u64 (seen uc (ctx(REG_RAX := 0, REG_RBP := caller_rbp)) mem) (ctx REG_RBP + 8) = Some s1
        \<and> crash_handler rs st uc mem sig ctx =
            Resume st (ctx(REG_RAX := 0, REG_RBP := caller_rbp, REG_RIP := s1, REG_RSP := ctx REG_RBP + 16)))
   \<or> (\<exists>st'. \<not> handlers_locked st' \<and> crash_handler rs st uc mem sig ctx = Reraise st' sig ctx)
   \<or> (\<exists>a. crash_handler rs st uc mem sig ctx = Fault a)"
  by (auto simp add: crash_handler_def Let_def split: option.splits prod.splits sum.splits)

text \<open>
  C9, amended. Whenever a handler returns a rewritten context, the shim's state is
  unchanged and the new instruction pointer is a word the handler read from memory, as
  the memory stood at that read (after the handler's earlier writes to the saved RAX
  and RBP): for \<open>sigsegv_handler\<close> the word at the stack pointer or the word one slot
  above the frame pointer, for \<open>crash_handler\<close> the word one slot above the frame
  pointer or one slot above the frame pointer saved there; the word is used as it is.
  Whenever a handler re-raises, it is the same signal, with the context unmodified and
  the flag cleared.
\<close>

theorem resume_target_is_stack_word:
  "(\<forall>st' ctx'. sigsegv_handler rs st uc mem sig si_addr ctx = Resume st' ctx' \<longrightarrow>
      st' = st
      \<and> (read_u64 (seen uc ctx mem) (ctx REG_RSP) = Some (ctx' REG_RIP)
           \<or> read_u64 (seen uc (ctx(REG_RAX := 0)) mem) (ctx REG_RSP) = Some (ctx' REG_RIP)
           \<or> (\<exists>f0. read_u64 (seen uc (ctx(REG_RAX := 0)) mem) (ctx REG_RBP) = Some f0
                 \<and> read_u64 (seen uc (ctx(REG_RAX := 0, REG_RBP := f0)) mem) (ctx REG_RBP + 8)
                     = Some (ctx' REG_RIP))))
   \<and> (\<forall>st' s ctx'. sigsegv_handler rs st uc mem sig si_addr ctx = Reraise st' s ctx' \<longrightarrow>
      s = SIGSEGV \<and> ctx' = ctx \<and> \<not> handlers_locked st')
   \<and> (\<forall>st' ctx'. crash_handler rs st uc mem sig ctx = Resume st' ctx' \<longrightarrow>
      st' = st
      \<and> (\<exists>caller_rbp. read_u64 (seen uc ctx mem) (ctx REG_RBP) = Some caller_rbp
            \<and> (read_u64 (seen uc (ctx(REG_RAX := 0, REG_RBP := caller_rbp)) mem) (ctx REG_RBP + 8)
                  = Some (ctx' REG_RIP)
                 \<or> (\<exists>c0. read_u64 (seen uc (ctx(REG_RAX := 0)) mem) caller_rbp = Some c0
                       \<and> read_u64 (seen uc (ctx(REG_RAX := 0, REG_RBP := c0)) mem) (caller_rbp + 8)
                           = Some (ctx' REG_RIP)))))
   \<and> (\<forall>st' s ctx'. crash_handler rs st uc mem sig ctx = Reraise st' s ctx' \<longrightarrow>
      s = sig \<and> ctx' = ctx \<and> \<not> handlers_locked st')"
proof (intro conjI allI impI)
  fix st' ctx'
  assume "sigsegv_handler rs st uc mem sig si_addr ctx = Resume st' ctx'"
  with sigsegv_handler_cases [of uc ctx mem rs st sig si_addr]
  show "st' = st" and "read_u64 (seen uc ctx mem) (ctx REG_RSP) = Some (ctx' REG_RIP)
           \<or> read_u64 (seen uc (ctx(REG_RAX := 0)) mem) (ctx REG_RSP) = Some (ctx' REG_RIP)
           \<or> (\<exists>f0. read_u64 (seen uc (ctx(REG_RAX := 0)) mem) (ctx REG_RBP) = Some f0
                 \<and> read_u64 (seen uc (ctx(REG_RAX := 0, REG_RBP := f0)) mem) (ctx REG_RBP + 8)
                     = Some (ctx' REG_RIP))"
    by auto
next
  fix st' s ctx'
  assume "sigsegv_handler rs st uc mem sig si_addr ctx = Reraise st' s ctx'"
  with sigsegv_handler_cases [of uc ctx mem rs st sig si_addr]
  show "s = SIGSEGV" and "ctx' = ctx" and "\<not> handlers_locked st'"
    by auto
next
  fix st' ctx'
  assume "crash_handler rs st uc mem sig ctx = Resume st' ctx'"
  with crash_handler_cases [of uc ctx mem rs st sig]
  show "st' = st" and "\<exists>caller_rbp. read_u64 (seen uc ctx mem) (ctx REG_RBP) = Some caller_rbp
            \<and> (read_u64 (seen uc (ctx(REG_RAX := 0, REG_RBP := caller_rbp)) mem) (ctx REG_RBP + 8)
                  = Some (ctx' REG_RIP)
                 \<or> (\<exists>c0. read_u64 (seen uc (ctx(REG_RAX := 0)) mem) caller_rbp = Some c0
                       \<and> read_u64 (seen uc (ctx(REG_RAX := 0, REG_RBP := c0)) mem) (caller_rbp + 8)
                           = Some (ctx' REG_RIP)))"
    by auto
next
  fix st' s ctx'
  assume "crash_handler rs st uc mem sig ctx = Reraise st' s ctx'"
  with crash_handler_cases [of uc ctx mem rs st sig]
  show "s = sig" and "ctx' = ctx" and "\<not> handlers_locked st'"
    by auto
qed

text \<open>C9, amended: a resumed context at a concrete input.\<close>

theorem resume_target_is_stack_word_witness:
  "sigsegv_handler kernel_sigaction armed uc0 stack_ret SIGSEGV 0 ctx_null_call =
     Resume armed (ctx_null_call(REG_RAX := 0, REG_RIP := 0x401234,
                                 REG_RSP := ctx_null_call REG_RSP + 8))
   \<and> read_u64 (seen uc0 ctx_null_call stack_ret) (ctx_null_call REG_RSP) = Some 0x401234"
proof -
  have a: "ctx_null_call REG_RIP < 0x10000" by (simp add: ctx_null_call_def)
  have b: "read_u64 (seen uc0 ctx_null_call stack_ret) (ctx_null_call REG_RSP) = Some 0x401234"
    by (simp add: fixture_defs)
  have c: "sigsegv_handler kernel_sigaction armed uc0 stack_ret SIGSEGV 0 ctx_null_call =
     Resume armed (ctx_null_call(REG_RAX := 0, REG_RIP := 0x401234,
                                 REG_RSP := ctx_null_call REG_RSP + 8))"
    using a b by (simp add: sigsegv_handler_def)
  from resume_target_is_stack_word [of kernel_sigaction armed uc0 stack_ret SIGSEGV 0 ctx_null_call,
      THEN conjunct1, rule_format, OF c] b c
  show ?thesis by simp
qed

subsection \<open>The armed flag\<close>

lemma sigaction_locked [simp]:
  "handlers_locked (snd (snd (sigaction rs st signum act oldact))) = handlers_locked st"
  by (simp add: sigaction_def split: prod.splits)

lemma signal_locked [simp]:
  "handlers_locked (snd (signal rs st signum h)) = handlers_locked st"
  by (simp add: signal_def split: prod.splits)

lemma syscall_locked [simp]:
  "handlers_locked (snd (syscall ry st number ap)) = handlers_locked st"
  by (simp add: syscall_def Let_def split: prod.splits)

lemma sigsegv_handler_locked:
  "handlers_locked (outcome_state st (sigsegv_handler rs st uc mem sig si_addr ctx)) \<Longrightarrow> handlers_locked st"
  using sigsegv_handler_cases [of uc ctx mem rs st sig si_addr] by auto

lemma crash_handler_locked:
  "handlers_locked (outcome_state st (crash_handler rs st uc mem sig ctx)) \<Longrightarrow> handlers_locked st"
  using crash_handler_cases [of uc ctx mem rs st sig] by auto

lemma step_locked: "handlers_locked (step rs ry st ev) \<Longrightarrow> handlers_locked st"
  by (cases ev) (auto dest: sigsegv_handler_locked crash_handler_locked)

lemma run_unlocked: "\<not> handlers_locked st \<Longrightarrow> \<not> handlers_locked (run rs ry st evs)"
proof (induction evs arbitrary: st)
  case Nil
  then show ?case by (simp add: run_def)
next
  case (Cons ev evs)
  from Cons.prems have "\<not> handlers_locked (step rs ry st ev)"
    using step_locked by blast
  then have "\<not> handlers_locked (run rs ry (step rs ry st ev) evs)"
    by (rule Cons.IH)
  then show ?case by (simp add: run_def)
qed

lemma unlocked_forwards:
  assumes "\<not> handlers_locked st"
  shows "sigaction rs st signum act oldact = forward_sigaction rs st signum act oldact"
    and "signal rs st signum h = forward_signal rs st signum h"
  using assms by (simp_all add: sigaction_def forward_sigaction_def signal_def forward_signal_def)

text \<open>
  C10. \<open>handlers_locked\<close> is false in the initial state; the constructor sets it, after
  the three installations through the real facility; no later operation (a call of
  \<open>sigaction\<close>, \<open>signal\<close> or \<open>syscall\<close>, a delivery to either handler) turns it on,
  and a fault outside the recognized patterns turns it off. So once it is off it stays
  off over any sequence of operations, and every \<open>sigaction\<close> and \<open>signal\<close> call made
  then, the managed signals included, is forwarded to the real facility.
\<close>

theorem armed_flag_monotone:
  "\<not> handlers_locked (initial_state e)
   \<and> handlers_locked (init rs st)
   \<and> env (init rs st) =
       snd (snd (rs SIGILL
         (Some \<lparr>sa_handler = Crash_handler, sa_flags = SA_SIGINFO OR SA_NODEFER, sa_mask = 0\<rparr>) False
         (snd (snd (rs SIGTRAP
           (Some \<lparr>sa_handler = Crash_handler, sa_flags = SA_SIGINFO OR SA_NODEFER, sa_mask = 0\<rparr>) False
           (snd (snd (rs SIGSEGV
             (Some \<lparr>sa_handler = Sigsegv_handler, sa_flags = SA_SIGINFO OR SA_NODEFER, sa_mask = 0\<rparr>)
             False (env st)))))))))
   \<and> (handlers_locked (step rs ry st ev) \<longrightarrow> handlers_locked st)
   \<and> (0x10000 \<le> ctx REG_RIP \<and> 0x10000 \<le> si_addr \<longrightarrow>
        \<not> handlers_locked (step rs ry st (Deliver_sigsegv uc mem sig si_addr ctx)))
   \<and> (is_crash (seen uc ctx mem) (ctx REG_RIP) = Inr False \<longrightarrow>
        \<not> handlers_locked (step rs ry st (Deliver_crash uc mem sig ctx)))
   \<and> (\<not> handlers_locked st \<longrightarrow>
        \<not> handlers_locked (run rs ry st evs)
        \<and> sigaction rs (run rs ry st evs) signum act oldact =
            forward_sigaction rs (run rs ry st evs) signum act oldact
        \<and> signal rs (run rs ry st evs) signum h = forward_signal rs (run rs ry st evs) signum h)"
proof -
  have a: "\<not> handlers_locked (initial_state e)" by (simp add: initial_state_def)
  have b: "handlers_locked (init rs st)" by (simp add: init_def Let_def)
  have c: "env (init rs st) =
       snd (snd (rs SIGILL
         (Some \<lparr>sa_handler = Crash_handler, sa_flags = SA_SIGINFO OR SA_NODEFER, sa_mask = 0\<rparr>) False
         (snd (snd (rs SIGTRAP
           (Some \<lparr>sa_handler = Crash_handler, sa_flags = SA_SIGINFO OR SA_NODEFER, sa_mask = 0\<rparr>) False
           (snd (snd (rs SIGSEGV
             (Some \<lparr>sa_handler = Sigsegv_handler, sa_flags = SA_SIGINFO OR SA_NODEFER, sa_mask = 0\<rparr>)
             False (env st)))))))))"
    by (simp add: init_def Let_def)
  have d: "handlers_locked (step rs ry st ev) \<longrightarrow> handlers_locked st"
    using step_locked by blast
  have f: "\<not> handlers_locked (step rs ry st (Deliver_sigsegv uc mem sig si_addr ctx))"
    if "0x10000 \<le> ctx REG_RIP \<and> 0x10000 \<le> si_addr"
    using that by (simp add: sigsegv_genuine)
  have g: "\<not> handlers_locked (step rs ry st (Deliver_crash uc mem sig ctx))"
    if "is_crash (seen uc ctx mem) (ctx REG_RIP) = Inr False"
    using crash_not_stub [where ctx = ctx and c = False and rs = rs and st = st and sig = sig, OF that]
    by simp
  have h: "\<not> handlers_locked (run rs ry st evs)
        \<and> sigaction rs (run rs ry st evs) signum act oldact =
            forward_sigaction rs (run rs ry st evs) signum act oldact
        \<and> signal rs (run rs ry st evs) signum h = forward_signal rs (run rs ry st evs) signum h"
    if "\<not> handlers_locked st"
    using run_unlocked [OF that] unlocked_forwards by blast
  from a b c d f g h show ?thesis by blast
qed

text \<open>
  C10 at a concrete run: a genuine SIGSEGV clears the flag, and after two more
  operations a \<open>sigaction\<close> call for SIGSEGV is forwarded.
\<close>

theorem armed_flag_monotone_witness:
  "handlers_locked armed
   \<and> \<not> handlers_locked (step kernel_sigaction sum_syscall armed
          (Deliver_sigsegv uc0 chain SIGSEGV 0x7ffd1000 ctx_code))
   \<and> \<not> handlers_locked (run kernel_sigaction sum_syscall
          (step kernel_sigaction sum_syscall armed (Deliver_sigsegv uc0 chain SIGSEGV 0x7ffd1000 ctx_code))
          [Call_signal SIGTRAP (Host_handler 0x500000), Deliver_crash uc0 chain SIGTRAP ctx_code])
   \<and> sigaction kernel_sigaction (run kernel_sigaction sum_syscall
          (step kernel_sigaction sum_syscall armed (Deliver_sigsegv uc0 chain SIGSEGV 0x7ffd1000 ctx_code))
          [Call_signal SIGTRAP (Host_handler 0x500000), Deliver_crash uc0 chain SIGTRAP ctx_code])
        SIGSEGV (Some \<lparr>sa_handler = Host_handler 0x500000, sa_flags = 4, sa_mask = 0\<rparr>) False =
      forward_sigaction kernel_sigaction (run kernel_sigaction sum_syscall
          (step kernel_sigaction sum_syscall armed (Deliver_sigsegv uc0 chain SIGSEGV 0x7ffd1000 ctx_code))
          [Call_signal SIGTRAP (Host_handler 0x500000), Deliver_crash uc0 chain SIGTRAP ctx_code])
        SIGSEGV (Some \<lparr>sa_handler = Host_handler 0x500000, sa_flags = 4, sa_mask = 0\<rparr>) False"
proof -
  let ?st = "step kernel_sigaction sum_syscall armed (Deliver_sigsegv uc0 chain SIGSEGV 0x7ffd1000 ctx_code)"
  let ?evs = "[Call_signal SIGTRAP (Host_handler 0x500000), Deliver_crash uc0 chain SIGTRAP ctx_code]"
  let ?a = "\<lparr>sa_handler = Host_handler 0x500000, sa_flags = 4, sa_mask = 0\<rparr>"
  have a: "0x10000 \<le> ctx_code REG_RIP \<and> (0x10000 :: u64) \<le> 0x7ffd1000"
    by (simp add: ctx_code_def)
  note m = armed_flag_monotone [where ctx = ctx_code and si_addr = "0x7ffd1000" and rs = kernel_sigaction
      and ry = sum_syscall and mem = chain and sig = SIGSEGV and uc = uc0]
  have u: "\<not> handlers_locked ?st"
    using m [where st = armed] a by blast
  have r: "\<not> handlers_locked (run kernel_sigaction sum_syscall ?st ?evs)
     \<and> sigaction kernel_sigaction (run kernel_sigaction sum_syscall ?st ?evs) SIGSEGV (Some ?a) False =
         forward_sigaction kernel_sigaction (run kernel_sigaction sum_syscall ?st ?evs) SIGSEGV (Some ?a) False"
    using m [where st = ?st and evs = ?evs and signum = SIGSEGV and act = "Some ?a" and oldact = False] u
    by blast
  from armed_locked u r show ?thesis by blast
qed

end
